theory Spec2Isabelle
  imports Complex_Main "HOL-Library.Char_ord" "HOL-Library.List_Lexorder"
begin

section \<open>The invoice backend: data model\<close>

text \<open>
  The server is an Express application over one Mongoose model, \<open>Invoice\<close>. A request
  body arrives as a parsed JSON object. The model below takes the fields of the body
  that \<open>invoiceSchema\<close> declares, each with the schema's type and each possibly absent
  (\<open>None\<close> is JavaScript's \<open>undefined\<close>). Fields the schema does not declare are
  dropped by Mongoose and are not represented. Numbers are their exact values.
\<close>

type_synonym timestamp = int
type_synonym object_id = nat

record merchant_info =
  merchant_name :: "string option"
  merchant_location :: "string option"

record customer_info =
  customer_name :: "string option"
  customer_email :: "string option"
  customer_phone :: "string option"
  customer_address :: "string option"

record invoice_details =
  details_invoiceNumber :: "string option"
  details_date :: "string option"
  details_dueDate :: "string option"
  details_notes :: "string option"

record line_item =
  item_id :: "string option"
  item_name :: "string option"
  item_quantity :: "rat option"
  item_price :: "rat option"
  item_total :: "rat option"

text \<open>
  The create handler inspects \<open>items\<close> with \<open>!items\<close>, \<open>Array.isArray\<close> and \<open>.length\<close>,
  so the three shapes it tells apart are kept: no value, a value that is not an array,
  and an array of line items.
\<close>

datatype items_value = Items_absent | Items_non_array | Items_array "line_item list"

record invoice_payload =
  invoiceNumber :: "string option"
  merchantInfo :: "merchant_info option"
  customerInfo :: "customer_info option"
  invoiceDetails :: "invoice_details option"
  items :: items_value
  serviceFee :: "string option"
  feeType :: "string option"
  feeValue :: "string option"
  subtotal :: "rat option"
  serviceFeeAmount :: "rat option"
  total :: "rat option"
  dynamicQRCode :: "string option"
  createdAt :: "timestamp option"
  updatedAt :: "timestamp option"

text \<open>A stored document is the schema's fields together with the internal \<open>_id\<close>.\<close>

record invoice = invoice_payload +
  doc_id :: object_id

text \<open>
  A thrown JavaScript error, as far as the handlers look at it: \<open>error.name\<close>,
  \<open>error.code\<close> (numeric codes only) and \<open>error.message\<close>.
\<close>

record js_error =
  err_name :: string
  err_code :: "int option"
  err_message :: string

text \<open>
  What a handler reads from its surroundings: \<open>process.env.NODE_ENV\<close>, the clock
  (\<open>Date.now()\<close>) and the identifier Mongoose generates for a new document.
\<close>

record env =
  NODE_ENV :: "string option"
  now :: timestamp
  new_id :: object_id

subsection \<open>Responses\<close>

text \<open>
  A response is a status code and a JSON object. The object is a record of all the
  keys the handlers ever send; an absent key is \<open>None\<close>. Numbers that may be \<open>NaN\<close>
  are \<open>int option\<close> with \<open>None\<close> for \<open>NaN\<close>.
\<close>

record page_info =
  page_total :: nat
  page_limit :: "int option"
  page_skip :: "int option"
  hasMore :: bool

record deleted_info =
  deleted_id :: object_id
  deleted_invoiceNumber :: "string option"

record response_body =
  success :: bool
  message :: "string option"
  error :: "string option"
  details :: "string option"
  invoiceId :: "object_id option"
  body_invoiceNumber :: "string option"
  body_createdAt :: "timestamp option"
  body_invoice :: "invoice option"
  invoices :: "invoice list option"
  pagination :: "page_info option"
  deletedInvoice :: "deleted_info option"

record response =
  status :: nat
  body :: response_body

definition json :: "bool \<Rightarrow> response_body" where
  "json ok = \<lparr>success = ok, message = None, error = None, details = None,
     invoiceId = None, body_invoiceNumber = None, body_createdAt = None,
     body_invoice = None, invoices = None, pagination = None, deletedInvoice = None\<rparr>"

section \<open>The document store\<close>

text \<open>
  The collection is the list of its documents in insertion order. Every store call
  takes a \<open>fault\<close>: \<open>Some e\<close> makes the call throw \<open>e\<close> without touching the collection
  (a lost connection, a rejected command), \<open>None\<close> lets it run.
\<close>

type_synonym store = "invoice list"

definition truthy :: "string option \<Rightarrow> bool" where
  "truthy v = (case v of None \<Rightarrow> False | Some s \<Rightarrow> s \<noteq> [])"

definition findOne :: "js_error option \<Rightarrow> store \<Rightarrow> string option \<Rightarrow> js_error + invoice option" where
  "findOne fault s n =
     (case fault of Some e \<Rightarrow> Inl e
      | None \<Rightarrow> Inr (find (\<lambda>d. invoiceNumber d = n) s))"

subsection \<open>Schema validation\<close>

function show_nat :: "nat \<Rightarrow> string" where
  "show_nat n = (if n < 10 then [char_of (48 + n)]
                 else show_nat (n div 10) @ [char_of (48 + n mod 10)])"
  by pat_completeness auto
termination
  by (relation "measure id") auto

declare show_nat.simps [simp del]

definition required_string :: "string \<Rightarrow> string option \<Rightarrow> string list" where
  "required_string path v = (if truthy v then [] else [path])"

definition number_min :: "string \<Rightarrow> bool \<Rightarrow> rat \<Rightarrow> rat option \<Rightarrow> string list" where
  "number_min path required lo v =
     (case v of None \<Rightarrow> (if required then [path] else [])
      | Some x \<Rightarrow> (if x < lo then [path] else []))"

definition validate_item :: "string \<Rightarrow> line_item \<Rightarrow> string list" where
  "validate_item prefix it =
     required_string (prefix @ ''.name'') (item_name it)
     @ number_min (prefix @ ''.quantity'') True 1 (item_quantity it)
     @ number_min (prefix @ ''.price'') True 0 (item_price it)
     @ number_min (prefix @ ''.total'') True 0 (item_total it)"

fun validate_items :: "nat \<Rightarrow> line_item list \<Rightarrow> string list" where
  "validate_items i [] = []"
| "validate_items i (it # rest) =
     validate_item (''items.'' @ show_nat i) it @ validate_items (Suc i) rest"

definition optional_name :: "customer_info option \<Rightarrow> string option" where
  "optional_name c = (case c of None \<Rightarrow> None | Some ci \<Rightarrow> customer_name ci)"

text \<open>
  \<open>validate_invoice\<close> lists the paths that fail the schema's \<open>required\<close> and \<open>min\<close>
  validators, in schema order. A \<open>required\<close> string fails when it is absent or empty.
\<close>

definition validate_invoice :: "invoice \<Rightarrow> string list" where
  "validate_invoice d =
     required_string ''invoiceNumber'' (invoiceNumber d)
     @ required_string ''customerInfo.name'' (optional_name (customerInfo d))
     @ (case items d of Items_array its \<Rightarrow> validate_items 0 its
        | Items_absent \<Rightarrow> [] | Items_non_array \<Rightarrow> [''items''])
     @ number_min ''subtotal'' True 0 (subtotal d)
     @ number_min ''serviceFeeAmount'' False 0 (serviceFeeAmount d)
     @ number_min ''total'' True 0 (total d)"

fun join :: "string \<Rightarrow> string list \<Rightarrow> string" where
  "join sep [] = []"
| "join sep [x] = x"
| "join sep (x # y # rest) = x @ sep @ join sep (y # rest)"

text \<open>
  Mongoose's \<open>ValidationError\<close>: its message names the model and the failing paths.
  The wording of the per-path texts is not modelled.
\<close>

definition ValidationError :: "string list \<Rightarrow> js_error" where
  "ValidationError paths =
     \<lparr>err_name = ''ValidationError'', err_code = None,
      err_message = ''Invoice validation failed: '' @ join '', '' paths\<rparr>"

text \<open>The server's error for a violated unique index on \<open>invoiceNumber\<close>.\<close>

definition duplicate_key_error :: "string option \<Rightarrow> js_error" where
  "duplicate_key_error n =
     \<lparr>err_name = ''MongoServerError'', err_code = Some 11000,
      err_message = ''E11000 duplicate key error: invoiceNumber '' @ (case n of None \<Rightarrow> ''null'' | Some k \<Rightarrow> k)\<rparr>"

subsection \<open>Constructing and saving a document\<close>

definition or_default :: "'a \<Rightarrow> 'a option \<Rightarrow> 'a option" where
  "or_default dflt v = (case v of None \<Rightarrow> Some dflt | Some x \<Rightarrow> Some x)"

text \<open>
  \<open>new Invoice(invoiceData)\<close>: the schema's fields are taken from the payload, the
  declared defaults fill absent fields (\<open>serviceFeeAmount: 0\<close>, \<open>createdAt\<close> and
  \<open>updatedAt: Date.now\<close>, an absent array is empty) and a fresh \<open>_id\<close> is attached.
\<close>

definition new_Invoice :: "env \<Rightarrow> invoice_payload \<Rightarrow> invoice" where
  "new_Invoice e p =
     invoice_payload.extend
       (p\<lparr>items := (case items p of Items_absent \<Rightarrow> Items_array [] | v \<Rightarrow> v),
          serviceFeeAmount := or_default 0 (serviceFeeAmount p),
          createdAt := or_default (now e) (createdAt p),
          updatedAt := or_default (now e) (updatedAt p)\<rparr>)
       (invoice.fields (new_id e))"

text \<open>\<open>invoiceSchema.pre('save', ...)\<close>: \<open>this.updatedAt = Date.now()\<close>.\<close>

definition pre_save :: "env \<Rightarrow> invoice \<Rightarrow> invoice" where
  "pre_save e d = d\<lparr>updatedAt := Some (now e)\<rparr>"

text \<open>
  \<open>invoice.save()\<close>: validation against the schema, then the pre-save hook, then the
  insert, which the unique index on \<open>invoiceNumber\<close> rejects with code 11000 when a
  document with that number is in the collection.
\<close>

definition save :: "env \<Rightarrow> js_error option \<Rightarrow> store \<Rightarrow> invoice \<Rightarrow> js_error + (invoice \<times> store)" where
  "save e fault s d =
     (case fault of Some err \<Rightarrow> Inl err
      | None \<Rightarrow>
         (if validate_invoice d \<noteq> [] then Inl (ValidationError (validate_invoice d))
          else if find (\<lambda>x. invoiceNumber x = invoiceNumber d) s \<noteq> None
               then Inl (duplicate_key_error (invoiceNumber d))
          else Inr (pre_save e d, s @ [pre_save e d])))"

section \<open>POST /api/invoices\<close>

text \<open>The \<open>catch\<close> block of the create handler.\<close>

definition post_invoices_catch :: "env \<Rightarrow> js_error \<Rightarrow> response" where
  "post_invoices_catch e err =
     (if err_code err = Some 11000 then
        \<lparr>status = 409, body = (json False)\<lparr>error := Some ''Invoice number already exists''\<rparr>\<rparr>
      else if err_name err = ''ValidationError'' then
        \<lparr>status = 400, body = (json False)\<lparr>error := Some ''Validation error'',
                                           details := Some (err_message err)\<rparr>\<rparr>
      else
        \<lparr>status = 500, body = (json False)\<lparr>error := Some ''Failed to save invoice'',
           details := Some (if NODE_ENV e = Some ''development'' then err_message err
                            else ''Internal server error'')\<rparr>\<rparr>)"

definition isArray :: "items_value \<Rightarrow> bool" where
  "isArray v = (case v of Items_array _ \<Rightarrow> True | _ \<Rightarrow> False)"

definition items_length :: "items_value \<Rightarrow> nat" where
  "items_length v = (case v of Items_array its \<Rightarrow> length its | _ \<Rightarrow> 0)"

text \<open>
  The handler up to and including \<open>await Invoice.findOne(...)\<close>: \<open>Some r\<close> when it has
  answered \<open>r\<close>, \<open>None\<close> when it goes on to save. The two guards come first, in the
  source's order; \<open>!items\<close> holds of an absent value (and of a falsy non-array, which
  \<open>!Array.isArray(items)\<close> rejects as well).
\<close>

definition post_invoices_lookup :: "env \<Rightarrow> js_error option \<Rightarrow> store \<Rightarrow> invoice_payload \<Rightarrow> response option" where
  "post_invoices_lookup e fault s invoiceData =
     (if \<not> truthy (invoiceNumber invoiceData) \<or> \<not> truthy (optional_name (customerInfo invoiceData)) then
        Some \<lparr>status = 400, body = (json False)\<lparr>error :=
          Some ''Missing required fields: invoiceNumber and customerInfo.name''\<rparr>\<rparr>
      else if items invoiceData = Items_absent \<or> \<not> isArray (items invoiceData)
              \<or> items_length (items invoiceData) = 0 then
        Some \<lparr>status = 400, body = (json False)\<lparr>error := Some ''At least one item is required''\<rparr>\<rparr>
      else
        (case findOne fault s (invoiceNumber invoiceData) of
           Inl err \<Rightarrow> Some (post_invoices_catch e err)
         | Inr (Some existingInvoice) \<Rightarrow>
             Some \<lparr>status = 409, body = (json False)\<lparr>error := Some ''Invoice number already exists''\<rparr>\<rparr>
         | Inr None \<Rightarrow> None))"

text \<open>The rest of the handler: \<open>new Invoice\<close>, \<open>await invoice.save()\<close> and the 201 answer.\<close>

definition post_invoices_persist :: "env \<Rightarrow> js_error option \<Rightarrow> store \<Rightarrow> invoice_payload \<Rightarrow> response \<times> store" where
  "post_invoices_persist e fault s invoiceData =
     (case save e fault s (new_Invoice e invoiceData) of
        Inl err \<Rightarrow> (post_invoices_catch e err, s)
      | Inr (savedInvoice, s') \<Rightarrow>
          (\<lparr>status = 201, body = (json True)\<lparr>message := Some ''Invoice saved successfully'',
              invoiceId := Some (doc_id savedInvoice),
              body_invoiceNumber := invoiceNumber savedInvoice,
              body_createdAt := createdAt savedInvoice\<rparr>\<rparr>, s'))"

text \<open>
  One create request served with no other request in between its two store calls.
  \<open>fault1\<close> is for \<open>findOne\<close>, \<open>fault2\<close> for \<open>save\<close>.
\<close>

definition post_invoices :: "env \<Rightarrow> js_error option \<Rightarrow> js_error option \<Rightarrow> store \<Rightarrow> invoice_payload \<Rightarrow> response \<times> store" where
  "post_invoices e fault1 fault2 s invoiceData =
     (case post_invoices_lookup e fault1 s invoiceData of
        Some r \<Rightarrow> (r, s)
      | None \<Rightarrow> post_invoices_persist e fault2 s invoiceData)"

section \<open>GET /api/invoices/:invoiceNumber\<close>

definition get_invoice :: "env \<Rightarrow> js_error option \<Rightarrow> store \<Rightarrow> string \<Rightarrow> response" where
  "get_invoice e fault s invoiceNumber_param =
     (case findOne fault s (Some invoiceNumber_param) of
        Inl err \<Rightarrow>
          \<lparr>status = 500, body = (json False)\<lparr>error := Some ''Failed to fetch invoice'',
             details := Some (if NODE_ENV e = Some ''development'' then err_message err
                              else ''Internal server error'')\<rparr>\<rparr>
      | Inr None \<Rightarrow>
          \<lparr>status = 404, body = (json False)\<lparr>error := Some ''Invoice not found''\<rparr>\<rparr>
      | Inr (Some found) \<Rightarrow>
          \<lparr>status = 200, body = (json True)\<lparr>body_invoice := Some found\<rparr>\<rparr>)"

section \<open>GET /api/invoices\<close>

subsection \<open>\<open>parseInt\<close> and JavaScript numbers\<close>

text \<open>
  \<open>parseInt(string)\<close> with no radix: leading white space is skipped, a sign is read,
  a \<open>0x\<close> prefix selects radix 16, and the longest prefix of digits is the value; with
  no digit the result is \<open>NaN\<close>, here \<open>None\<close>. White space is the ASCII part of
  JavaScript's set. The value is exact: the rounding of integers beyond \<open>2^53\<close> is not
  modelled.
\<close>

definition is_white_space :: "char \<Rightarrow> bool" where
  "is_white_space c = (c \<in> set [CHR 0x09, CHR 0x0A, CHR 0x0B, CHR 0x0C, CHR 0x0D, CHR '' ''])"

definition digit_value :: "char \<Rightarrow> nat option" where
  "digit_value c =
     (let k = (of_char c :: nat) in
      if 48 \<le> k \<and> k \<le> 57 then Some (k - 48)
      else if 97 \<le> k \<and> k \<le> 122 then Some (k - 87)
      else if 65 \<le> k \<and> k \<le> 90 then Some (k - 55)
      else None)"

definition is_digit :: "nat \<Rightarrow> char \<Rightarrow> bool" where
  "is_digit R c = (case digit_value c of Some v \<Rightarrow> v < R | None \<Rightarrow> False)"

definition digits_value :: "nat \<Rightarrow> string \<Rightarrow> nat" where
  "digits_value R Z = foldl (\<lambda>acc c. acc * R + (case digit_value c of Some v \<Rightarrow> v | None \<Rightarrow> 0)) 0 Z"

definition strip_sign :: "string \<Rightarrow> int \<times> string" where
  "strip_sign S =
     (case S of [] \<Rightarrow> (1, [])
      | c # rest \<Rightarrow> if c = CHR ''-'' then (- 1, rest)
                    else if c = CHR ''+'' then (1, rest) else (1, S))"

definition parseInt :: "string \<Rightarrow> int option" where
  "parseInt inputString =
     (case strip_sign (dropWhile is_white_space inputString) of (sign, S) \<Rightarrow>
        (let hex = (take 2 S = ''0x'' \<or> take 2 S = ''0X'');
             R = (if hex then 16 else 10);
             Z = takeWhile (is_digit R) (if hex then drop 2 S else S)
         in if Z = [] then None else Some (sign * int (digits_value R Z))))"

text \<open>\<open>+\<close> and \<open><\<close> on numbers: \<open>NaN\<close> is absorbing for \<open>+\<close> and every comparison with it is false.\<close>

definition js_add :: "int option \<Rightarrow> int option \<Rightarrow> int option" where
  "js_add a b = (case (a, b) of (Some x, Some y) \<Rightarrow> Some (x + y) | _ \<Rightarrow> None)"

definition js_less :: "int option \<Rightarrow> int option \<Rightarrow> bool" where
  "js_less a b = (case (a, b) of (Some x, Some y) \<Rightarrow> x < y | _ \<Rightarrow> False)"

subsection \<open>Sorting in the store\<close>

text \<open>
  The store compares the values of the sort path in BSON order: a missing value (null)
  first, then numbers, strings, documents, arrays, object ids and dates. Strings compare
  byte by byte. Documents and arrays are ranked by type only.
\<close>

datatype bson = BNull | BNumber rat | BString string | BObject | BArray
  | BObjectId object_id | BDate timestamp

fun bson_type_order :: "bson \<Rightarrow> nat" where
  "bson_type_order BNull = 2"
| "bson_type_order (BNumber _) = 3"
| "bson_type_order (BString _) = 4"
| "bson_type_order BObject = 5"
| "bson_type_order BArray = 6"
| "bson_type_order (BObjectId _) = 8"
| "bson_type_order (BDate _) = 10"

fun bson_le :: "bson \<Rightarrow> bson \<Rightarrow> bool" where
  "bson_le (BNumber x) (BNumber y) = (x \<le> y)"
| "bson_le (BString x) (BString y) = (x \<le> y)"
| "bson_le (BObjectId x) (BObjectId y) = (x \<le> y)"
| "bson_le (BDate x) (BDate y) = (x \<le> y)"
| "bson_le a b = (bson_type_order a \<le> bson_type_order b)"

instantiation bson :: linorder
begin

definition less_eq_bson :: "bson \<Rightarrow> bson \<Rightarrow> bool" where
  "less_eq_bson a b = bson_le a b"

definition less_bson :: "bson \<Rightarrow> bson \<Rightarrow> bool" where
  "less_bson a b = (bson_le a b \<and> \<not> bson_le b a)"

instance
proof
  fix x y z :: bson
  show "(x < y) = (x \<le> y \<and> \<not> y \<le> x)"
    by (simp add: less_bson_def less_eq_bson_def)
  show "x \<le> x"
    by (cases x) (simp_all add: less_eq_bson_def)
  show "x \<le> y \<Longrightarrow> y \<le> z \<Longrightarrow> x \<le> z"
    by (cases x; cases y; cases z) (simp_all add: less_eq_bson_def)
  show "x \<le> y \<Longrightarrow> y \<le> x \<Longrightarrow> x = y"
    by (cases x; cases y) (simp_all add: less_eq_bson_def)
  show "x \<le> y \<or> y \<le> x"
    by (cases x; cases y) (auto simp add: less_eq_bson_def)
qed

end

definition of_string :: "string option \<Rightarrow> bson" where
  "of_string v = (case v of None \<Rightarrow> BNull | Some s \<Rightarrow> BString s)"

definition of_number :: "rat option \<Rightarrow> bson" where
  "of_number v = (case v of None \<Rightarrow> BNull | Some x \<Rightarrow> BNumber x)"

definition of_date :: "timestamp option \<Rightarrow> bson" where
  "of_date v = (case v of None \<Rightarrow> BNull | Some t \<Rightarrow> BDate t)"

definition nested :: "'a option \<Rightarrow> ('a \<Rightarrow> string option) \<Rightarrow> bson" where
  "nested obj field = (case obj of None \<Rightarrow> BNull | Some x \<Rightarrow> of_string (field x))"


definition sort_value :: "string \<Rightarrow> invoice \<Rightarrow> bson" where
  "sort_value path d =
     (if path = ''_id'' then BObjectId (doc_id d)
      else if path = ''invoiceNumber'' then of_string (invoiceNumber d)
      else if path = ''merchantInfo'' then (case merchantInfo d of None \<Rightarrow> BNull | Some _ \<Rightarrow> BObject)
      else if path = ''merchantInfo.name'' then nested (merchantInfo d) merchant_name
      else if path = ''merchantInfo.location'' then nested (merchantInfo d) merchant_location
      else if path = ''customerInfo'' then (case customerInfo d of None \<Rightarrow> BNull | Some _ \<Rightarrow> BObject)
      else if path = ''customerInfo.name'' then nested (customerInfo d) customer_name
      else if path = ''customerInfo.email'' then nested (customerInfo d) customer_email
      else if path = ''customerInfo.phone'' then nested (customerInfo d) customer_phone
      else if path = ''customerInfo.address'' then nested (customerInfo d) customer_address
      else if path = ''invoiceDetails'' then (case invoiceDetails d of None \<Rightarrow> BNull | Some _ \<Rightarrow> BObject)
      else if path = ''invoiceDetails.invoiceNumber'' then nested (invoiceDetails d) details_invoiceNumber
      else if path = ''invoiceDetails.date'' then nested (invoiceDetails d) details_date
      else if path = ''invoiceDetails.dueDate'' then nested (invoiceDetails d) details_dueDate
      else if path = ''invoiceDetails.notes'' then nested (invoiceDetails d) details_notes
      else if path \<in> set [''items'', ''items.id'', ''items.name'', ''items.quantity'',
                           ''items.price'', ''items.total''] then BArray
      else if path = ''serviceFee'' then of_string (serviceFee d)
      else if path = ''feeType'' then of_string (feeType d)
      else if path = ''feeValue'' then of_string (feeValue d)
      else if path = ''subtotal'' then of_number (subtotal d)
      else if path = ''serviceFeeAmount'' then of_number (serviceFeeAmount d)
      else if path = ''total'' then of_number (total d)
      else if path = ''dynamicQRCode'' then of_string (dynamicQRCode d)
      else if path = ''createdAt'' then of_date (createdAt d)
      else if path = ''updatedAt'' then of_date (updatedAt d)
      else BNull)"

text \<open>
  \<open>.sort(sortOptions)\<close> with the one-key object \<open>{[path]: direction}\<close>: ascending for a
  positive direction, descending for a negative one. Documents with equal values keep
  their stored order: the server promises no order among them, and a stable one is
  what this model fixes.
\<close>

definition sort_by :: "string \<times> int \<Rightarrow> store \<Rightarrow> invoice list" where
  "sort_by sortOptions s =
     (case sortOptions of (path, direction) \<Rightarrow>
        if direction < 0 then rev (sort_key (sort_value path) (rev s))
        else sort_key (sort_value path) s)"

text \<open>
  \<open>.skip(n)\<close> and \<open>.limit(n)\<close> as the store applies them, the skip first. A negative skip
  is rejected by the server. A limit of 0 means no limit, and a negative limit is its
  absolute value. \<open>NaN\<close> reaches the server as 0 in both places.
\<close>

definition bad_value :: js_error where
  "bad_value = \<lparr>err_name = ''MongoServerError'', err_code = Some 2,
                err_message = ''Skip value must be non-negative''\<rparr>"

definition apply_skip :: "int option \<Rightarrow> 'a list \<Rightarrow> js_error + 'a list" where
  "apply_skip n xs =
     (case n of None \<Rightarrow> Inr xs
      | Some k \<Rightarrow> if k < 0 then Inl bad_value else Inr (drop (nat k) xs))"

definition apply_limit :: "int option \<Rightarrow> 'a list \<Rightarrow> 'a list" where
  "apply_limit n xs =
     (case n of None \<Rightarrow> xs
      | Some k \<Rightarrow> if k = 0 then xs else take (nat \<bar>k\<bar>) xs)"

text \<open>\<open>.select('-dynamicQRCode')\<close>.\<close>

definition select_without_dynamicQRCode :: "invoice \<Rightarrow> invoice" where
  "select_without_dynamicQRCode d = d\<lparr>dynamicQRCode := None\<rparr>"

text \<open>\<open>Invoice.find().sort(...).limit(...).skip(...).select(...)\<close>, awaited.\<close>

definition find_page :: "js_error option \<Rightarrow> store \<Rightarrow> string \<times> int \<Rightarrow> int option \<Rightarrow> int option \<Rightarrow> js_error + invoice list" where
  "find_page fault s sortOptions limit_n skip_n =
     (case fault of Some err \<Rightarrow> Inl err
      | None \<Rightarrow>
         (case apply_skip skip_n (sort_by sortOptions s) of
            Inl err \<Rightarrow> Inl err
          | Inr rest \<Rightarrow> Inr (map select_without_dynamicQRCode (apply_limit limit_n rest))))"

definition countDocuments :: "js_error option \<Rightarrow> store \<Rightarrow> js_error + nat" where
  "countDocuments fault s = (case fault of Some err \<Rightarrow> Inl err | None \<Rightarrow> Inr (length s))"

subsection \<open>The handler\<close>

text \<open>
  \<open>req.query\<close>: each parameter is a string when present. The destructuring defaults
  apply to an absent parameter only; \<open>parseInt\<close> turns the numeric defaults 50 and 0
  into strings first.
\<close>

record list_query =
  limit :: "string option"
  skip :: "string option"
  sortBy :: "string option"
  sortOrder :: "string option"

definition with_default :: "'a \<Rightarrow> 'a option \<Rightarrow> 'a" where
  "with_default dflt v = (case v of None \<Rightarrow> dflt | Some x \<Rightarrow> x)"

definition sort_options :: "list_query \<Rightarrow> string \<times> int" where
  "sort_options q =
     (with_default ''createdAt'' (sortBy q),
      if with_default ''desc'' (sortOrder q) = ''desc'' then - 1 else 1)"

definition get_invoices_catch :: "env \<Rightarrow> js_error \<Rightarrow> response" where
  "get_invoices_catch e err =
     \<lparr>status = 500, body = (json False)\<lparr>error := Some ''Failed to fetch invoices'',
        details := Some (if NODE_ENV e = Some ''development'' then err_message err
                         else ''Internal server error'')\<rparr>\<rparr>"

text \<open>\<open>fault1\<close> is for the \<open>find\<close> query, \<open>fault2\<close> for \<open>countDocuments\<close>.\<close>

definition get_invoices :: "env \<Rightarrow> js_error option \<Rightarrow> js_error option \<Rightarrow> store \<Rightarrow> list_query \<Rightarrow> response" where
  "get_invoices e fault1 fault2 s q =
     (let limit_n = parseInt (with_default ''50'' (limit q));
          skip_n = parseInt (with_default ''0'' (skip q))
      in case find_page fault1 s (sort_options q) limit_n skip_n of
           Inl err \<Rightarrow> get_invoices_catch e err
         | Inr found \<Rightarrow>
            (case countDocuments fault2 s of
               Inl err \<Rightarrow> get_invoices_catch e err
             | Inr total_n \<Rightarrow>
                \<lparr>status = 200, body = (json True)\<lparr>invoices := Some found,
                   pagination := Some \<lparr>page_total = total_n, page_limit = limit_n,
                     page_skip = skip_n,
                     hasMore = js_less (js_add skip_n limit_n) (Some (int total_n))\<rparr>\<rparr>\<rparr>))"

section \<open>DELETE /api/invoices/:invoiceNumber\<close>

fun remove_first :: "('a \<Rightarrow> bool) \<Rightarrow> 'a list \<Rightarrow> 'a list" where
  "remove_first P [] = []"
| "remove_first P (x # xs) = (if P x then xs else x # remove_first P xs)"

text \<open>\<open>findOneAndDelete\<close>: the first match is removed and returned, in one store step.\<close>

definition findOneAndDelete :: "js_error option \<Rightarrow> store \<Rightarrow> string option \<Rightarrow> js_error + (invoice option \<times> store)" where
  "findOneAndDelete fault s n =
     (case fault of Some err \<Rightarrow> Inl err
      | None \<Rightarrow> Inr (find (\<lambda>d. invoiceNumber d = n) s,
                     remove_first (\<lambda>d. invoiceNumber d = n) s))"

definition delete_invoice :: "env \<Rightarrow> js_error option \<Rightarrow> store \<Rightarrow> string \<Rightarrow> response \<times> store" where
  "delete_invoice e fault s invoiceNumber_param =
     (case findOneAndDelete fault s (Some invoiceNumber_param) of
        Inl err \<Rightarrow>
          (\<lparr>status = 500, body = (json False)\<lparr>error := Some ''Failed to delete invoice'',
              details := Some (if NODE_ENV e = Some ''development'' then err_message err
                               else ''Internal server error'')\<rparr>\<rparr>, s)
      | Inr (None, s') \<Rightarrow>
          (\<lparr>status = 404, body = (json False)\<lparr>error := Some ''Invoice not found''\<rparr>\<rparr>, s')
      | Inr (Some deleted, s') \<Rightarrow>
          (\<lparr>status = 200, body = (json True)\<lparr>message := Some ''Invoice deleted successfully'',
              deletedInvoice := Some \<lparr>deleted_id = doc_id deleted,
                                       deleted_invoiceNumber = invoiceNumber deleted\<rparr>\<rparr>\<rparr>, s'))"

section \<open>The fallback handlers\<close>

text \<open>The catch-all route and the global error handler.\<close>

definition not_found_handler :: "string \<Rightarrow> string \<Rightarrow> response" where
  "not_found_handler method originalUrl =
     \<lparr>status = 404, body = (json False)\<lparr>error := Some ''Endpoint not found'',
        message := Some (''Cannot '' @ method @ '' '' @ originalUrl)\<rparr>\<rparr>"

definition global_error_handler :: "env \<Rightarrow> js_error \<Rightarrow> response" where
  "global_error_handler e err =
     \<lparr>status = 500, body = (json False)\<lparr>error := Some ''Internal server error'',
        details := Some (if NODE_ENV e = Some ''development'' then err_message err
                         else ''Something went wrong'')\<rparr>\<rparr>"

section \<open>Requests running concurrently\<close>

text \<open>
  Handlers run on one thread and give way to each other only at an \<open>await\<close>; each store
  call is one step of the store. The create handler awaits twice, so another request
  can be served between its \<open>findOne\<close> and its \<open>save\<close>: a create that has passed
  \<open>findOne\<close> waits in \<open>awaiting_save\<close> until it resumes. The other handlers write at
  most once and are served in one step.
\<close>

record system =
  documents :: store
  awaiting_save :: "(env \<times> invoice_payload) list"

datatype event =
    Post_arrives env "js_error option" invoice_payload
  | Post_resumes nat "js_error option"
  | Get_served env "js_error option" string
  | List_served env "js_error option" "js_error option" list_query
  | Delete_served env "js_error option" string

definition remove_nth :: "nat \<Rightarrow> 'a list \<Rightarrow> 'a list" where
  "remove_nth k xs = take k xs @ drop (Suc k) xs"

fun step :: "event \<Rightarrow> system \<Rightarrow> response option \<times> system" where
  "step (Post_arrives e fault p) st =
     (case post_invoices_lookup e fault (documents st) p of
        Some r \<Rightarrow> (Some r, st)
      | None \<Rightarrow> (None, st\<lparr>awaiting_save := awaiting_save st @ [(e, p)]\<rparr>))"
| "step (Post_resumes k fault) st =
     (if k < length (awaiting_save st) then
        (case awaiting_save st ! k of (e, p) \<Rightarrow>
           (case post_invoices_persist e fault (documents st) p of (r, s') \<Rightarrow>
              (Some r, \<lparr>documents = s', awaiting_save = remove_nth k (awaiting_save st)\<rparr>)))
      else (None, st))"
| "step (Get_served e fault n) st = (Some (get_invoice e fault (documents st) n), st)"
| "step (List_served e fault1 fault2 q) st =
     (Some (get_invoices e fault1 fault2 (documents st) q), st)"
| "step (Delete_served e fault n) st =
     (case delete_invoice e fault (documents st) n of (r, s') \<Rightarrow>
        (Some r, st\<lparr>documents := s'\<rparr>))"

fun run :: "event list \<Rightarrow> system \<Rightarrow> system" where
  "run [] st = st"
| "run (ev # evs) st = run evs (snd (step ev st))"

definition initial :: system where
  "initial = \<lparr>documents = [], awaiting_save = []\<rparr>"

definition unique_numbers :: "store \<Rightarrow> bool" where
  "unique_numbers s = distinct (map invoiceNumber s)"

section \<open>Sample data\<close>

text \<open>The request of the README, and documents created from it.\<close>

definition sample_item :: line_item where
  "sample_item = \<lparr>item_id = Some ''1'', item_name = Some ''Produk A'',
     item_quantity = Some 2, item_price = Some 50000, item_total = Some 100000\<rparr>"

definition sample_customer :: customer_info where
  "sample_customer = \<lparr>customer_name = Some ''John Doe'', customer_email = Some ''john@example.com'',
     customer_phone = Some ''+62812345678'', customer_address = Some ''Jl. Contoh No. 123''\<rparr>"

definition sample_payload :: "string \<Rightarrow> invoice_payload" where
  "sample_payload n =
     \<lparr>invoiceNumber = Some n,
      merchantInfo = Some \<lparr>merchant_name = Some ''Toko ABC'', merchant_location = Some ''Jakarta''\<rparr>,
      customerInfo = Some sample_customer, invoiceDetails = None,
      items = Items_array [sample_item],
      serviceFee = None, feeType = None, feeValue = None,
      subtotal = Some 100000, serviceFeeAmount = None, total = Some 100000,
      dynamicQRCode = Some ''data:image/png;base64,AAAA'',
      createdAt = None, updatedAt = None\<rparr>"

definition production :: "timestamp \<Rightarrow> object_id \<Rightarrow> env" where
  "production t i = \<lparr>NODE_ENV = Some ''production'', now = t, new_id = i\<rparr>"

definition development :: "timestamp \<Rightarrow> object_id \<Rightarrow> env" where
  "development t i = \<lparr>NODE_ENV = Some ''development'', now = t, new_id = i\<rparr>"

definition sample_doc :: "string \<Rightarrow> timestamp \<Rightarrow> object_id \<Rightarrow> invoice" where
  "sample_doc n t i = pre_save (production t i) (new_Invoice (production t i) (sample_payload n))"

definition no_query :: list_query where
  "no_query = \<lparr>limit = None, skip = None, sortBy = None, sortOrder = None\<rparr>"

text \<open>
  Two identical create requests that are both past the lookup before either saves.
\<close>

definition racing_creates :: "event list" where
  "racing_creates =
     [Post_arrives (production 1000 11) None (sample_payload ''INV-1''),
      Post_arrives (production 2000 12) None (sample_payload ''INV-1''),
      Post_resumes 0 None,
      Post_resumes 0 None]"

text \<open>An unexpected store failure.\<close>

definition network_error :: "string \<Rightarrow> js_error" where
  "network_error msg = \<lparr>err_name = ''MongoNetworkError'', err_code = None, err_message = msg\<rparr>"

section \<open>Notions used in the properties\<close>

text \<open>A list of documents in ascending, or descending, order of their values at a path.\<close>

definition ascending :: "string \<Rightarrow> invoice list \<Rightarrow> bool" where
  "ascending path xs = sorted (map (sort_value path) xs)"

definition descending :: "string \<Rightarrow> invoice list \<Rightarrow> bool" where
  "descending path xs = sorted (rev (map (sort_value path) xs))"

section \<open>Properties of the handlers\<close>

subsection \<open>Shared facts about the create handler\<close>

lemma find_number_None:
  "(find (\<lambda>d. invoiceNumber d = n) s = None) = (n \<notin> invoiceNumber ` set s)"
  by (auto simp add: find_None_iff)

lemma guards_pass:
  assumes "truthy (invoiceNumber p)" and "truthy (optional_name (customerInfo p))"
    and "items p = Items_array its" and "its \<noteq> []"
  shows "post_invoices_lookup e fault s p =
     (case findOne fault s (invoiceNumber p) of
        Inl err \<Rightarrow> Some (post_invoices_catch e err)
      | Inr (Some existingInvoice) \<Rightarrow>
          Some \<lparr>status = 409, body = (json False)\<lparr>error := Some ''Invoice number already exists''\<rparr>\<rparr>
      | Inr None \<Rightarrow> None)"
  using assms by (simp add: post_invoices_lookup_def isArray_def items_length_def)

lemma guards_fail:
  assumes "\<not> truthy (invoiceNumber p) \<or> \<not> truthy (optional_name (customerInfo p))
     \<or> items p = Items_absent \<or> items p = Items_non_array \<or> items p = Items_array []"
  shows "\<exists>r. post_invoices_lookup e fault s p = Some r \<and> status r = 400
     \<and> success (body r) = False \<and> error (body r) \<noteq> None \<and> details (body r) = None"
  using assms by (auto simp add: post_invoices_lookup_def isArray_def items_length_def json_def)

lemma new_Invoice_number: "invoiceNumber (new_Invoice e p) = invoiceNumber p"
  by (simp add: new_Invoice_def invoice_payload.extend_def)

lemmas sample_defs = sample_payload_def sample_item_def sample_customer_def sample_doc_def
  production_def development_def no_query_def

lemmas create_defs = post_invoices_def post_invoices_lookup_def post_invoices_persist_def
  post_invoices_catch_def findOne_def save_def new_Invoice_def pre_save_def
  invoice_payload.extend_def invoice.fields_def or_default_def
  truthy_def optional_name_def isArray_def items_length_def json_def

lemmas validate_defs = validate_invoice_def validate_item_def required_string_def number_min_def
  ValidationError_def duplicate_key_error_def

subsection \<open>C1: duplicate invoice numbers\<close>

text \<open>
  C1 as stated fails: a request that repeats a stored invoice number but has an empty
  \<open>items\<close> array is answered 400 by the items guard, which runs before the lookup.
\<close>

theorem duplicate_number_empty_items_is_400:
  "invoiceNumber ((sample_payload ''INV-1'')\<lparr>items := Items_array []\<rparr>)
     = invoiceNumber (sample_doc ''INV-1'' 1000 7)
   \<and> status (fst (post_invoices (production 2000 8) None None [sample_doc ''INV-1'' 1000 7]
        ((sample_payload ''INV-1'')\<lparr>items := Items_array []\<rparr>))) = 400"
  by (simp add: sample_defs create_defs)

text \<open>
  C1, amended. For every create request that passes the two guards (a non-empty
  \<open>invoiceNumber\<close> and \<open>customerInfo.name\<close>, a non-empty \<open>items\<close> array) and whose
  \<open>invoiceNumber\<close> is that of a stored invoice, the handler answers 409 with
  \<open>success: false\<close> once the lookup has run, whatever the rest of the body is, and
  leaves the store as it was. The duplicate-key path gives the same response: when
  the document reaches \<open>save\<close> while the number is in the store, and for every error
  whose code is 11000.
\<close>

theorem post_invoices_conflict:
  assumes "truthy (invoiceNumber p)" and "truthy (optional_name (customerInfo p))"
    and "items p = Items_array its" and "its \<noteq> []"
    and "invoiceNumber p \<in> invoiceNumber ` set s"
  shows "post_invoices e None fault2 s p =
           (\<lparr>status = 409, body = (json False)\<lparr>error := Some ''Invoice number already exists''\<rparr>\<rparr>, s)
       \<and> success (body (fst (post_invoices e None fault2 s p))) = False
       \<and> (validate_invoice (new_Invoice e p) = [] \<longrightarrow>
            post_invoices_persist e None s p = post_invoices e None fault2 s p)
       \<and> (err_code err = Some 11000 \<longrightarrow>
            post_invoices_catch e err = fst (post_invoices e None fault2 s p))"
proof -
  from assms(5) obtain d where d: "find (\<lambda>d. invoiceNumber d = invoiceNumber p) s = Some d"
    using find_number_None [of "invoiceNumber p" s] by auto
  have look: "post_invoices_lookup e None s p =
      Some \<lparr>status = 409, body = (json False)\<lparr>error := Some ''Invoice number already exists''\<rparr>\<rparr>"
    using guards_pass [OF assms(1-4)] d by (simp add: findOne_def)
  have main: "post_invoices e None fault2 s p =
      (\<lparr>status = 409, body = (json False)\<lparr>error := Some ''Invoice number already exists''\<rparr>\<rparr>, s)"
    by (simp add: post_invoices_def look)
  have persist: "validate_invoice (new_Invoice e p) = [] \<Longrightarrow>
      post_invoices_persist e None s p =
        (\<lparr>status = 409, body = (json False)\<lparr>error := Some ''Invoice number already exists''\<rparr>\<rparr>, s)"
    using d by (simp add: post_invoices_persist_def save_def new_Invoice_number
        post_invoices_catch_def duplicate_key_error_def)
  show ?thesis
    using main persist by (simp add: post_invoices_catch_def json_def)
qed

theorem post_invoices_conflict_witness:
  "truthy (invoiceNumber ((sample_payload ''INV-1'')\<lparr>total := Some 5\<rparr>))
   \<and> items ((sample_payload ''INV-1'')\<lparr>total := Some 5\<rparr>) = Items_array [sample_item]
   \<and> invoiceNumber ((sample_payload ''INV-1'')\<lparr>total := Some 5\<rparr>)
        \<in> invoiceNumber ` set [sample_doc ''INV-1'' 1000 7]
   \<and> validate_invoice (new_Invoice (production 2000 8) ((sample_payload ''INV-1'')\<lparr>total := Some 5\<rparr>)) = []
   \<and> status (fst (post_invoices (production 2000 8) None None [sample_doc ''INV-1'' 1000 7]
        ((sample_payload ''INV-1'')\<lparr>total := Some 5\<rparr>))) = 409
   \<and> post_invoices_persist (production 2000 8) None [sample_doc ''INV-1'' 1000 7]
        ((sample_payload ''INV-1'')\<lparr>total := Some 5\<rparr>)
      = post_invoices (production 2000 8) None None [sample_doc ''INV-1'' 1000 7]
        ((sample_payload ''INV-1'')\<lparr>total := Some 5\<rparr>)
   \<and> post_invoices_catch (production 2000 8) (duplicate_key_error (Some ''INV-1''))
      = fst (post_invoices (production 2000 8) None None [sample_doc ''INV-1'' 1000 7]
        ((sample_payload ''INV-1'')\<lparr>total := Some 5\<rparr>))"
proof -
  let ?p = "(sample_payload ''INV-1'')\<lparr>total := Some 5\<rparr>"
  have h1: "truthy (invoiceNumber ?p)" by (simp add: sample_defs truthy_def)
  have h2: "truthy (optional_name (customerInfo ?p))"
    by (simp add: sample_defs truthy_def optional_name_def)
  have h3: "items ?p = Items_array [sample_item]" by (simp add: sample_defs)
  have h4: "[sample_item] \<noteq> []" by simp
  have h5: "invoiceNumber ?p \<in> invoiceNumber ` set [sample_doc ''INV-1'' 1000 7]"
    by (simp add: sample_defs create_defs)
  have v: "validate_invoice (new_Invoice (production 2000 8) ?p) = []"
    by (simp add: sample_defs create_defs validate_defs show_nat.simps)
  have c: "err_code (duplicate_key_error (Some ''INV-1'')) = Some 11000"
    by (simp add: duplicate_key_error_def)
  from post_invoices_conflict [OF h1 h2 h3 h4 h5, of "production 2000 8" None
      "duplicate_key_error (Some ''INV-1'')"] h1 h3 h5 v c
  show ?thesis by simp
qed

subsection \<open>C2: requests that fail a guard\<close>

text \<open>
  C2 as stated fails in its last part: when the rejected request names an invoice
  number that is already stored, a get for that number afterwards answers 200.
\<close>

theorem rejected_create_get_is_200:
  "optional_name (customerInfo ((sample_payload ''INV-2'')\<lparr>customerInfo := None\<rparr>)) = None
   \<and> status (fst (post_invoices (production 2000 8) None None [sample_doc ''INV-2'' 1000 7]
        ((sample_payload ''INV-2'')\<lparr>customerInfo := None\<rparr>))) = 400
   \<and> status (get_invoice (production 3000 9) None
        (snd (post_invoices (production 2000 8) None None [sample_doc ''INV-2'' 1000 7]
           ((sample_payload ''INV-2'')\<lparr>customerInfo := None\<rparr>))) ''INV-2'') = 200"
  by (simp add: sample_defs create_defs get_invoice_def)

text \<open>
  C2, amended. For every create request in which \<open>invoiceNumber\<close> is absent (or empty),
  \<open>customerInfo.name\<close> is absent (or empty), or \<open>items\<close> is absent, not an array, or an
  empty array, the handler answers 400 with \<open>success: false\<close> and makes no store call:
  the store is unchanged whatever the store would have done, so a get afterwards
  answers as it would have before, and answers 404 when no invoice with that number
  was stored before the request.
\<close>

theorem post_invoices_rejected:
  assumes "\<not> truthy (invoiceNumber p) \<or> \<not> truthy (optional_name (customerInfo p))
     \<or> items p = Items_absent \<or> items p = Items_non_array \<or> items p = Items_array []"
  shows "status (fst (post_invoices e fault1 fault2 s p)) = 400
       \<and> success (body (fst (post_invoices e fault1 fault2 s p))) = False
       \<and> snd (post_invoices e fault1 fault2 s p) = s
       \<and> get_invoice e' fault (snd (post_invoices e fault1 fault2 s p)) n = get_invoice e' fault s n
       \<and> (Some n \<notin> invoiceNumber ` set s \<longrightarrow>
            status (get_invoice e' None (snd (post_invoices e fault1 fault2 s p)) n) = 404)"
proof -
  from guards_fail [OF assms, of e fault1 s] obtain r where
    r: "post_invoices_lookup e fault1 s p = Some r" "status r = 400" "success (body r) = False"
    by blast
  have post: "post_invoices e fault1 fault2 s p = (r, s)"
    by (simp add: post_invoices_def r(1))
  have "Some n \<notin> invoiceNumber ` set s \<Longrightarrow> status (get_invoice e' None s n) = 404"
    using find_number_None [of "Some n" s] by (simp add: get_invoice_def findOne_def)
  with post r show ?thesis by simp
qed

theorem post_invoices_rejected_witness:
  "items ((sample_payload ''INV-3'')\<lparr>items := Items_non_array\<rparr>) = Items_non_array
   \<and> Some ''INV-3'' \<notin> invoiceNumber ` set [sample_doc ''INV-2'' 1000 7]
   \<and> status (fst (post_invoices (production 2000 8) None None [sample_doc ''INV-2'' 1000 7]
        ((sample_payload ''INV-3'')\<lparr>items := Items_non_array\<rparr>))) = 400
   \<and> snd (post_invoices (production 2000 8) None None [sample_doc ''INV-2'' 1000 7]
        ((sample_payload ''INV-3'')\<lparr>items := Items_non_array\<rparr>)) = [sample_doc ''INV-2'' 1000 7]
   \<and> status (get_invoice (production 3000 9) None
        (snd (post_invoices (production 2000 8) None None [sample_doc ''INV-2'' 1000 7]
           ((sample_payload ''INV-3'')\<lparr>items := Items_non_array\<rparr>))) ''INV-3'') = 404"
proof -
  let ?p = "(sample_payload ''INV-3'')\<lparr>items := Items_non_array\<rparr>"
  have h: "items ?p = Items_non_array" by (simp add: sample_defs)
  have fresh: "Some ''INV-3'' \<notin> invoiceNumber ` set [sample_doc ''INV-2'' 1000 7]"
    by (simp add: sample_defs create_defs)
  have "\<not> truthy (invoiceNumber ?p) \<or> \<not> truthy (optional_name (customerInfo ?p))
     \<or> items ?p = Items_absent \<or> items ?p = Items_non_array \<or> items ?p = Items_array []"
    using h by simp
  from post_invoices_rejected [OF this, of "production 2000 8" None None
      "[sample_doc ''INV-2'' 1000 7]" "production 3000 9" None "''INV-3''"] h fresh
  show ?thesis by blast
qed

subsection \<open>Shared facts about the list handler\<close>

lemma descending_iff: "descending path xs = sorted_wrt (\<lambda>a b. b \<le> a) (map (sort_value path) xs)"
  by (simp add: descending_def sorted_wrt_rev)

lemma ascending_take: "ascending path xs \<Longrightarrow> ascending path (take n xs)"
  by (simp add: ascending_def take_map [symmetric] sorted_wrt_take del: take_map)

lemma ascending_drop: "ascending path xs \<Longrightarrow> ascending path (drop n xs)"
  by (simp add: ascending_def drop_map [symmetric] sorted_wrt_drop del: drop_map)

lemma descending_take: "descending path xs \<Longrightarrow> descending path (take n xs)"
  by (simp add: descending_iff take_map [symmetric] sorted_wrt_take del: take_map)

lemma descending_drop: "descending path xs \<Longrightarrow> descending path (drop n xs)"
  by (simp add: descending_iff drop_map [symmetric] sorted_wrt_drop del: drop_map)

lemma sort_by_ascending: "0 \<le> direction \<Longrightarrow> ascending path (sort_by (path, direction) s)"
  by (simp add: sort_by_def ascending_def)

lemma sort_by_descending: "direction < 0 \<Longrightarrow> descending path (sort_by (path, direction) s)"
  by (simp add: sort_by_def descending_def rev_map [symmetric])


lemma set_sort_by: "set (sort_by sortOptions s) = set s"
  by (cases sortOptions) (simp add: sort_by_def)



lemma apply_limit_ascending: "ascending path xs \<Longrightarrow> ascending path (apply_limit n xs)"
  by (simp add: apply_limit_def ascending_take split: option.splits)

lemma apply_limit_descending: "descending path xs \<Longrightarrow> descending path (apply_limit n xs)"
  by (simp add: apply_limit_def descending_take split: option.splits)

lemma apply_skip_ascending: "apply_skip n xs = Inr ys \<Longrightarrow> ascending path xs \<Longrightarrow> ascending path ys"
  by (auto simp add: apply_skip_def ascending_drop split: option.splits if_splits)

lemma apply_skip_descending: "apply_skip n xs = Inr ys \<Longrightarrow> descending path xs \<Longrightarrow> descending path ys"
  by (auto simp add: apply_skip_def descending_drop split: option.splits if_splits)



text \<open>What a 200 answer of the list handler consists of, and when it is given.\<close>

lemma get_invoices_200:
  assumes "status (get_invoices e fault1 fault2 s q) = 200"
  shows "\<exists>rest. fault1 = None \<and> fault2 = None
     \<and> apply_skip (parseInt (with_default ''0'' (skip q))) (sort_by (sort_options q) s) = Inr rest
     \<and> body (get_invoices e fault1 fault2 s q) = (json True)\<lparr>invoices :=
           Some (map select_without_dynamicQRCode
                  (apply_limit (parseInt (with_default ''50'' (limit q))) rest)),
         pagination := Some \<lparr>page_total = length s,
           page_limit = parseInt (with_default ''50'' (limit q)),
           page_skip = parseInt (with_default ''0'' (skip q)),
           hasMore = js_less (js_add (parseInt (with_default ''0'' (skip q)))
                                     (parseInt (with_default ''50'' (limit q))))
                             (Some (int (length s)))\<rparr>\<rparr>"
  using assms
  by (auto simp add: get_invoices_def find_page_def countDocuments_def get_invoices_catch_def Let_def
      split: option.splits sum.splits)



lemmas sort_value_defs = sort_value_def of_string_def of_number_def of_date_def nested_def
  less_eq_bson_def less_bson_def

subsection \<open>C3: the page of a list request\<close>




subsection \<open>C7: a sort field the schema does not declare\<close>



subsection \<open>C9: the sort direction\<close>

text \<open>
  C9. For every list request, a \<open>sortOrder\<close> that is present and is not the string
  \<open>desc\<close> (\<open>asc\<close>, any other string, the empty string) gives direction 1, and the
  invoices of a 200 answer are cut from the collection in ascending order of the
  chosen field. The string \<open>desc\<close>, which is also the default of an absent parameter,
  gives direction -1 and descending order.
\<close>

theorem sort_order_direction:
  "(sortOrder q = Some ord \<and> ord \<noteq> ''desc'' \<longrightarrow>
      snd (sort_options q) = 1
      \<and> ascending (fst (sort_options q)) (sort_by (sort_options q) s)
      \<and> (status (get_invoices e fault1 fault2 s q) = 200 \<longrightarrow>
           (\<exists>ys. invoices (body (get_invoices e fault1 fault2 s q))
                   = Some (map select_without_dynamicQRCode ys)
                 \<and> ascending (fst (sort_options q)) ys)))
   \<and> (sortOrder q = Some ''desc'' \<or> sortOrder q = None \<longrightarrow>
      snd (sort_options q) = - 1
      \<and> descending (fst (sort_options q)) (sort_by (sort_options q) s)
      \<and> (status (get_invoices e fault1 fault2 s q) = 200 \<longrightarrow>
           (\<exists>ys. invoices (body (get_invoices e fault1 fault2 s q))
                   = Some (map select_without_dynamicQRCode ys)
                 \<and> descending (fst (sort_options q)) ys)))"
proof -
  obtain path direction where so: "sort_options q = (path, direction)"
    by (cases "sort_options q")
  have page: "\<exists>rest. apply_skip (parseInt (with_default ''0'' (skip q))) (sort_by (sort_options q) s) = Inr rest
      \<and> invoices (body (get_invoices e fault1 fault2 s q)) =
          Some (map select_without_dynamicQRCode
                 (apply_limit (parseInt (with_default ''50'' (limit q))) rest))"
    if "status (get_invoices e fault1 fault2 s q) = 200"
    using get_invoices_200 [OF that] by (auto simp add: json_def)
  have asc: ?thesis if up: "sortOrder q = Some ord" "ord \<noteq> ''desc''"
  proof -
    have dir: "direction = 1"
      using so up by (simp add: sort_options_def with_default_def)
    have sorted: "ascending path (sort_by (sort_options q) s)"
      unfolding so dir by (rule sort_by_ascending) simp
    have "\<exists>ys. invoices (body (get_invoices e fault1 fault2 s q))
                   = Some (map select_without_dynamicQRCode ys) \<and> ascending path ys"
      if "status (get_invoices e fault1 fault2 s q) = 200"
      using page [OF that] sorted
      by (blast intro: apply_limit_ascending apply_skip_ascending)
    with dir sorted up show ?thesis by (simp add: so)
  qed
  have desc: ?thesis if down: "sortOrder q = Some ''desc'' \<or> sortOrder q = None"
  proof -
    have dir: "direction = - 1"
      using so down by (auto simp add: sort_options_def with_default_def)
    have sorted: "descending path (sort_by (sort_options q) s)"
      unfolding so dir by (rule sort_by_descending) simp
    have "\<exists>ys. invoices (body (get_invoices e fault1 fault2 s q))
                   = Some (map select_without_dynamicQRCode ys) \<and> descending path ys"
      if "status (get_invoices e fault1 fault2 s q) = 200"
      using page [OF that] sorted
      by (blast intro: apply_limit_descending apply_skip_descending)
    with dir sorted down show ?thesis by (auto simp add: so)
  qed
  show ?thesis
  proof (cases "sortOrder q")
    case None
    then show ?thesis using desc by simp
  next
    case (Some v)
    show ?thesis
    proof (cases "v = ''desc''")
      case True
      with Some show ?thesis using desc by simp
    next
      case False
      have "ord = v" if "sortOrder q = Some ord" using that Some by simp
      show ?thesis
      proof (cases "sortOrder q = Some ord")
        case True
        with Some False asc show ?thesis by simp
      next
        case False
        with Some \<open>v \<noteq> ''desc''\<close> show ?thesis by simp
      qed
    qed
  qed
qed

theorem sort_order_direction_witness:
  "sortOrder (no_query\<lparr>sortBy := Some ''invoiceNumber'', sortOrder := Some ''''\<rparr>) = Some ''''
   \<and> '''' \<noteq> ''desc''
   \<and> snd (sort_options (no_query\<lparr>sortBy := Some ''invoiceNumber'', sortOrder := Some ''''\<rparr>)) = 1
   \<and> ascending ''invoiceNumber''
        (sort_by (sort_options (no_query\<lparr>sortBy := Some ''invoiceNumber'', sortOrder := Some ''''\<rparr>))
           [sample_doc ''INV-2'' 1000 11, sample_doc ''INV-1'' 2000 12])
   \<and> sort_by (sort_options (no_query\<lparr>sortBy := Some ''invoiceNumber'', sortOrder := Some ''''\<rparr>))
        [sample_doc ''INV-2'' 1000 11, sample_doc ''INV-1'' 2000 12]
      = [sample_doc ''INV-1'' 2000 12, sample_doc ''INV-2'' 1000 11]
   \<and> sortOrder (no_query\<lparr>sortBy := Some ''invoiceNumber''\<rparr>) = None
   \<and> snd (sort_options (no_query\<lparr>sortBy := Some ''invoiceNumber''\<rparr>)) = - 1
   \<and> descending ''invoiceNumber''
        (sort_by (sort_options (no_query\<lparr>sortBy := Some ''invoiceNumber''\<rparr>))
           [sample_doc ''INV-1'' 2000 12, sample_doc ''INV-2'' 1000 11])
   \<and> sort_by (sort_options (no_query\<lparr>sortBy := Some ''invoiceNumber''\<rparr>))
        [sample_doc ''INV-1'' 2000 12, sample_doc ''INV-2'' 1000 11]
      = [sample_doc ''INV-2'' 1000 11, sample_doc ''INV-1'' 2000 12]"
proof -
  let ?up = "no_query\<lparr>sortBy := Some ''invoiceNumber'', sortOrder := Some ''''\<rparr>"
  let ?down = "no_query\<lparr>sortBy := Some ''invoiceNumber''\<rparr>"
  have h1: "sortOrder ?up = Some ''''" and h2: "sortOrder ?down = None"
    by (simp_all add: no_query_def)
  have h3: "'''' \<noteq> ''desc''" by simp
  have f1: "fst (sort_options ?up) = ''invoiceNumber''" and f2: "fst (sort_options ?down) = ''invoiceNumber''"
    by (simp_all add: sort_options_def no_query_def with_default_def)
  have number: "invoiceNumber (sample_doc n t i) = Some n" for n t i
    by (simp add: sample_defs create_defs)
  have s1: "sort_by (sort_options ?up) [sample_doc ''INV-2'' 1000 11, sample_doc ''INV-1'' 2000 12]
      = [sample_doc ''INV-1'' 2000 12, sample_doc ''INV-2'' 1000 11]"
    by (simp add: sort_options_def sort_by_def no_query_def with_default_def sort_value_defs number)
  have s2: "sort_by (sort_options ?down) [sample_doc ''INV-1'' 2000 12, sample_doc ''INV-2'' 1000 11]
      = [sample_doc ''INV-2'' 1000 11, sample_doc ''INV-1'' 2000 12]"
    by (simp add: sort_options_def sort_by_def no_query_def with_default_def sort_value_defs number)
  from sort_order_direction [of ?up "''''" "[sample_doc ''INV-2'' 1000 11, sample_doc ''INV-1'' 2000 12]"
      "production 9000 9" None None] h1 h3 f1
  have up: "snd (sort_options ?up) = 1
      \<and> ascending ''invoiceNumber'' (sort_by (sort_options ?up)
           [sample_doc ''INV-2'' 1000 11, sample_doc ''INV-1'' 2000 12])"
    by simp
  from sort_order_direction [of ?down "''''" "[sample_doc ''INV-1'' 2000 12, sample_doc ''INV-2'' 1000 11]"
      "production 9000 9" None None] h2 f2
  have down: "snd (sort_options ?down) = - 1
      \<and> descending ''invoiceNumber'' (sort_by (sort_options ?down)
           [sample_doc ''INV-1'' 2000 12, sample_doc ''INV-2'' 1000 11])"
    by simp
  from h1 h2 h3 s1 s2 up down show ?thesis by blast
qed

subsection \<open>C10: a limit or skip that does not parse\<close>



subsection \<open>C4: create, then get\<close>






subsection \<open>Shared facts about the store\<close>

lemma find_unique:
  "unique_numbers s \<Longrightarrow> d \<in> set s \<Longrightarrow> invoiceNumber d = n \<Longrightarrow>
   find (\<lambda>x. invoiceNumber x = n) s = Some d"
  by (induction s) (auto simp add: unique_numbers_def)

lemma find_holds: "find P s = Some d \<Longrightarrow> P d"
  by (induction s) (auto split: if_splits)

lemma remove_first_found:
  "find P s = Some d \<Longrightarrow> remove_first P s = remove1 d s"
  by (induction s) (auto split: if_splits dest: find_holds)

lemma remove_first_none: "find P s = None \<Longrightarrow> remove_first P s = s"
  by (induction s) (auto split: if_splits)

lemma set_remove_first: "set (remove_first P s) \<subseteq> set s"
  by (induction s) auto

lemma length_remove_first: "length (remove_first P s) \<le> length s"
  by (induction s) auto

lemma unique_remove_first: "unique_numbers s \<Longrightarrow> unique_numbers (remove_first P s)"
proof (induction s)
  case Nil
  then show ?case by simp
next
  case (Cons x xs)
  then show ?case
    using set_remove_first [of P xs] by (auto simp add: unique_numbers_def)
qed

lemma unique_distinct: "unique_numbers s \<Longrightarrow> distinct s"
  by (simp add: unique_numbers_def distinct_map)

lemma number_gone:
  assumes "unique_numbers s" and "d \<in> set s"
  shows "invoiceNumber d \<notin> invoiceNumber ` set (remove1 d s)"
proof
  assume "invoiceNumber d \<in> invoiceNumber ` set (remove1 d s)"
  then obtain x where x: "x \<in> set (remove1 d s)" "invoiceNumber x = invoiceNumber d"
    by auto
  from assms(1) have "distinct s" by (rule unique_distinct)
  with x(1) have "x \<in> set s" "x \<noteq> d" by simp_all
  moreover from assms(1) have "inj_on invoiceNumber (set s)"
    by (simp add: unique_numbers_def distinct_map)
  ultimately show False
    using assms(2) x(2) by (auto dest: inj_onD)
qed

subsection \<open>C6: delete\<close>

text \<open>
  C6. In a store where invoice numbers are unique (every reachable store, see C5): a
  delete request whose invoice number is that of a stored invoice removes exactly that
  document and answers 200 with its id and invoice number, after which a get for the
  number answers 404 and a second delete answers 404 and changes nothing; a delete
  request whose number matches no stored invoice answers 404 and leaves the store
  unchanged.
\<close>

theorem delete_invoice_removes_once:
  assumes "unique_numbers s"
  shows "(d \<in> set s \<and> invoiceNumber d = Some n \<longrightarrow>
           delete_invoice e None s n =
             (\<lparr>status = 200, body = (json True)\<lparr>message := Some ''Invoice deleted successfully'',
                 deletedInvoice := Some \<lparr>deleted_id = doc_id d, deleted_invoiceNumber = Some n\<rparr>\<rparr>\<rparr>,
              remove1 d s)
           \<and> set (remove1 d s) = set s - {d}
           \<and> length (remove1 d s) = length s - 1
           \<and> status (get_invoice e' None (remove1 d s) n) = 404
           \<and> delete_invoice e'' None (remove1 d s) n =
               (\<lparr>status = 404, body = (json False)\<lparr>error := Some ''Invoice not found''\<rparr>\<rparr>, remove1 d s))
       \<and> (Some n \<notin> invoiceNumber ` set s \<longrightarrow>
           delete_invoice e None s n =
             (\<lparr>status = 404, body = (json False)\<lparr>error := Some ''Invoice not found''\<rparr>\<rparr>, s))"
proof -
  have missing: "delete_invoice env0 None t n =
      (\<lparr>status = 404, body = (json False)\<lparr>error := Some ''Invoice not found''\<rparr>\<rparr>, t)"
    if "Some n \<notin> invoiceNumber ` set t" for env0 t
  proof -
    from that have "find (\<lambda>x. invoiceNumber x = Some n) t = None"
      by (simp add: find_number_None)
    then show ?thesis
      by (simp add: delete_invoice_def findOneAndDelete_def remove_first_none)
  qed
  have present: "delete_invoice e None s n =
             (\<lparr>status = 200, body = (json True)\<lparr>message := Some ''Invoice deleted successfully'',
                 deletedInvoice := Some \<lparr>deleted_id = doc_id d, deleted_invoiceNumber = Some n\<rparr>\<rparr>\<rparr>,
              remove1 d s)
           \<and> set (remove1 d s) = set s - {d}
           \<and> length (remove1 d s) = length s - 1
           \<and> status (get_invoice e' None (remove1 d s) n) = 404
           \<and> delete_invoice e'' None (remove1 d s) n =
               (\<lparr>status = 404, body = (json False)\<lparr>error := Some ''Invoice not found''\<rparr>\<rparr>, remove1 d s)"
    if stored: "d \<in> set s" "invoiceNumber d = Some n"
  proof -
    from find_unique [OF assms stored] have found: "find (\<lambda>x. invoiceNumber x = Some n) s = Some d" .
    then have del: "delete_invoice e None s n =
        (\<lparr>status = 200, body = (json True)\<lparr>message := Some ''Invoice deleted successfully'',
            deletedInvoice := Some \<lparr>deleted_id = doc_id d, deleted_invoiceNumber = Some n\<rparr>\<rparr>\<rparr>,
         remove1 d s)"
      by (simp add: delete_invoice_def findOneAndDelete_def remove_first_found stored(2))
    from assms have "distinct s" by (rule unique_distinct)
    then have rest: "set (remove1 d s) = set s - {d}" by simp
    have len: "length (remove1 d s) = length s - 1"
      using stored(1) by (simp add: length_remove1)
    from number_gone [OF assms stored(1)] stored(2)
    have gone: "Some n \<notin> invoiceNumber ` set (remove1 d s)" by simp
    then have get: "status (get_invoice e' None (remove1 d s) n) = 404"
      by (simp add: get_invoice_def findOne_def find_number_None [symmetric])
    from del rest len get missing [OF gone] show ?thesis by simp
  qed
  from present missing show ?thesis by blast
qed

theorem delete_invoice_removes_once_witness:
  "unique_numbers [sample_doc ''INV-1'' 1000 11, sample_doc ''INV-2'' 2000 12]
   \<and> sample_doc ''INV-1'' 1000 11 \<in> set [sample_doc ''INV-1'' 1000 11, sample_doc ''INV-2'' 2000 12]
   \<and> invoiceNumber (sample_doc ''INV-1'' 1000 11) = Some ''INV-1''
   \<and> delete_invoice (production 3000 13) None
        [sample_doc ''INV-1'' 1000 11, sample_doc ''INV-2'' 2000 12] ''INV-1'' =
       (\<lparr>status = 200, body = (json True)\<lparr>message := Some ''Invoice deleted successfully'',
           deletedInvoice := Some \<lparr>deleted_id = 11, deleted_invoiceNumber = Some ''INV-1''\<rparr>\<rparr>\<rparr>,
        [sample_doc ''INV-2'' 2000 12])
   \<and> status (get_invoice (production 4000 14) None [sample_doc ''INV-2'' 2000 12] ''INV-1'') = 404
   \<and> delete_invoice (production 5000 15) None [sample_doc ''INV-2'' 2000 12] ''INV-1'' =
       (\<lparr>status = 404, body = (json False)\<lparr>error := Some ''Invoice not found''\<rparr>\<rparr>,
        [sample_doc ''INV-2'' 2000 12])
   \<and> Some ''INV-7'' \<notin> invoiceNumber ` set [sample_doc ''INV-1'' 1000 11, sample_doc ''INV-2'' 2000 12]
   \<and> delete_invoice (production 3000 13) None
        [sample_doc ''INV-1'' 1000 11, sample_doc ''INV-2'' 2000 12] ''INV-7'' =
       (\<lparr>status = 404, body = (json False)\<lparr>error := Some ''Invoice not found''\<rparr>\<rparr>,
        [sample_doc ''INV-1'' 1000 11, sample_doc ''INV-2'' 2000 12])"
proof -
  let ?d1 = "sample_doc ''INV-1'' 1000 11" and ?d2 = "sample_doc ''INV-2'' 2000 12"
  have number: "invoiceNumber (sample_doc n t i) = Some n" for n t i
    by (simp add: sample_defs create_defs)
  have ident: "doc_id (sample_doc n t i) = i" for n t i
    by (simp add: sample_defs create_defs)
  have u: "unique_numbers [?d1, ?d2]" by (simp add: unique_numbers_def number)
  have h1: "?d1 \<in> set [?d1, ?d2]" by simp
  have h2: "invoiceNumber ?d1 = Some ''INV-1''" by (simp add: number)
  have h3: "Some ''INV-7'' \<notin> invoiceNumber ` set [?d1, ?d2]" by (simp add: number)
  have rem: "remove1 ?d1 [?d1, ?d2] = [?d2]" by simp
  note first = delete_invoice_removes_once [OF u, of ?d1 "''INV-1''" "production 3000 13"
      "production 4000 14" "production 5000 15", unfolded rem ident]
  note second = delete_invoice_removes_once [OF u, of ?d1 "''INV-7''" "production 3000 13"
      "production 4000 14" "production 5000 15"]
  from first h1 h2 have a: "delete_invoice (production 3000 13) None [?d1, ?d2] ''INV-1'' =
       (\<lparr>status = 200, body = (json True)\<lparr>message := Some ''Invoice deleted successfully'',
           deletedInvoice := Some \<lparr>deleted_id = 11, deleted_invoiceNumber = Some ''INV-1''\<rparr>\<rparr>\<rparr>,
        [?d2])"
    and b: "status (get_invoice (production 4000 14) None [?d2] ''INV-1'') = 404"
    and c: "delete_invoice (production 5000 15) None [?d2] ''INV-1'' =
       (\<lparr>status = 404, body = (json False)\<lparr>error := Some ''Invoice not found''\<rparr>\<rparr>, [?d2])"
    by blast+
  from second h3 have d: "delete_invoice (production 3000 13) None [?d1, ?d2] ''INV-7'' =
       (\<lparr>status = 404, body = (json False)\<lparr>error := Some ''Invoice not found''\<rparr>\<rparr>, [?d1, ?d2])"
    by blast
  from u h1 h2 h3 a b c d show ?thesis by blast
qed

subsection \<open>C5: invoice numbers stay unique\<close>

lemma persist_outcome:
  "post_invoices_persist e fault s p =
     (if fault = None \<and> validate_invoice (new_Invoice e p) = []
         \<and> invoiceNumber p \<notin> invoiceNumber ` set s
      then (\<lparr>status = 201, body = (json True)\<lparr>message := Some ''Invoice saved successfully'',
                invoiceId := Some (new_id e), body_invoiceNumber := invoiceNumber p,
                body_createdAt := or_default (now e) (createdAt p)\<rparr>\<rparr>,
            s @ [pre_save e (new_Invoice e p)])
      else (fst (post_invoices_persist e fault s p), s))"
proof -
  have fields: "doc_id (pre_save e (new_Invoice e p)) = new_id e"
      "invoiceNumber (pre_save e (new_Invoice e p)) = invoiceNumber p"
      "createdAt (pre_save e (new_Invoice e p)) = or_default (now e) (createdAt p)"
    by (simp_all add: pre_save_def new_Invoice_def invoice_payload.extend_def invoice.fields_def)
  show ?thesis
    by (cases fault)
      (auto simp add: post_invoices_persist_def save_def fields new_Invoice_number
        find_number_None [symmetric])
qed

lemma persist_failure_status:
  "\<not> (fault = None \<and> validate_invoice (new_Invoice e p) = []
       \<and> invoiceNumber p \<notin> invoiceNumber ` set s) \<Longrightarrow>
   status (fst (post_invoices_persist e fault s p)) \<noteq> 201"
  by (cases fault)
    (auto simp add: post_invoices_persist_def save_def post_invoices_catch_def
      find_number_None [symmetric] new_Invoice_number)

lemma persist_unique:
  "unique_numbers s \<Longrightarrow> unique_numbers (snd (post_invoices_persist e fault s p))"
proof -
  assume u: "unique_numbers s"
  have "invoiceNumber (pre_save e (new_Invoice e p)) = invoiceNumber p"
    by (simp add: pre_save_def new_Invoice_number)
  with u show ?thesis
    by (subst persist_outcome) (simp add: unique_numbers_def)
qed

lemma delete_unique:
  "unique_numbers s \<Longrightarrow> unique_numbers (snd (delete_invoice e fault s n))"
  by (cases fault)
    (auto simp add: delete_invoice_def findOneAndDelete_def unique_remove_first
      split: option.splits)

lemma step_unique:
  "unique_numbers (documents st) \<Longrightarrow> unique_numbers (documents (snd (step ev st)))"
proof (cases ev)
  case (Post_arrives e fault p)
  assume "unique_numbers (documents st)"
  with Post_arrives show ?thesis by (simp split: option.splits)
next
  case (Post_resumes k fault)
  assume u: "unique_numbers (documents st)"
  show ?thesis
  proof (cases "k < length (awaiting_save st)")
    case True
    obtain e p where w: "awaiting_save st ! k = (e, p)"
      by (cases "awaiting_save st ! k")
    obtain r s' where out: "post_invoices_persist e fault (documents st) p = (r, s')"
      by (cases "post_invoices_persist e fault (documents st) p")
    from persist_unique [OF u, of e fault p] out have "unique_numbers s'" by simp
    with Post_resumes True w out show ?thesis by simp
  next
    case False
    with Post_resumes u show ?thesis by simp
  qed
next
  case (Get_served e fault n)
  assume "unique_numbers (documents st)"
  with Get_served show ?thesis by simp
next
  case (List_served e fault1 fault2 q)
  assume "unique_numbers (documents st)"
  with List_served show ?thesis by simp
next
  case (Delete_served e fault n)
  assume u: "unique_numbers (documents st)"
  obtain r s' where out: "delete_invoice e fault (documents st) n = (r, s')"
    by (cases "delete_invoice e fault (documents st) n")
  from delete_unique [OF u, of e fault n] out have "unique_numbers s'" by simp
  with Delete_served out show ?thesis by simp
qed

lemma run_unique:
  "unique_numbers (documents st) \<Longrightarrow> unique_numbers (documents (run evs st))"
  by (induction evs arbitrary: st) (simp_all add: step_unique)

lemma reachable_unique: "unique_numbers (documents (run evs initial))"
  by (rule run_unique) (simp add: initial_def unique_numbers_def)

text \<open>
  C5. In every state the system reaches from the empty store, under every interleaving
  of requests at their store calls and every store failure, each invoice number is
  that of at most one stored invoice, and every step preserves this. Of two creates for
  one invoice number that are both past the lookup, at most one is answered 201 and the
  store is not changed by the other; when the two requests are identical and the
  second save is served, the second is answered the 409 conflict. Get and list leave
  the system as it is, and delete only removes.
\<close>

theorem invoice_numbers_unique:
  "unique_numbers (documents (run evs initial))
   \<and> (unique_numbers (documents st) \<longrightarrow> unique_numbers (documents (snd (step ev st))))
   \<and> (invoiceNumber p1 = invoiceNumber p2
        \<and> status (fst (post_invoices_persist e1 fault1 s p1)) = 201 \<longrightarrow>
          status (fst (post_invoices_persist e2 fault2 (snd (post_invoices_persist e1 fault1 s p1)) p2)) \<noteq> 201
          \<and> snd (post_invoices_persist e2 fault2 (snd (post_invoices_persist e1 fault1 s p1)) p2)
              = snd (post_invoices_persist e1 fault1 s p1))
   \<and> (status (fst (post_invoices_persist e1 fault1 s p1)) = 201 \<longrightarrow>
          post_invoices_persist e2 None (snd (post_invoices_persist e1 fault1 s p1)) p1 =
            (\<lparr>status = 409, body = (json False)\<lparr>error := Some ''Invoice number already exists''\<rparr>\<rparr>,
             snd (post_invoices_persist e1 fault1 s p1)))
   \<and> snd (step (Get_served e fault n) st) = st
   \<and> snd (step (List_served e fault fault' q) st) = st
   \<and> set (documents (snd (step (Delete_served e fault n) st))) \<subseteq> set (documents st)
   \<and> length (documents (snd (step (Delete_served e fault n) st))) \<le> length (documents st)"
proof -
  have won: "fault1 = None \<and> validate_invoice (new_Invoice e1 p1) = []
      \<and> invoiceNumber p1 \<notin> invoiceNumber ` set s
      \<and> snd (post_invoices_persist e1 fault1 s p1) = s @ [pre_save e1 (new_Invoice e1 p1)]"
    if "status (fst (post_invoices_persist e1 fault1 s p1)) = 201"
  proof -
    from that persist_failure_status [of fault1 e1 p1 s]
    have ok: "fault1 = None \<and> validate_invoice (new_Invoice e1 p1) = []
        \<and> invoiceNumber p1 \<notin> invoiceNumber ` set s"
      by blast
    then show ?thesis by (subst persist_outcome) simp
  qed
  have taken: "invoiceNumber p1 \<in> invoiceNumber ` set (s @ [pre_save e1 (new_Invoice e1 p1)])"
    by (simp add: pre_save_def new_Invoice_number)
  have race: "status (fst (post_invoices_persist e2 fault2 (snd (post_invoices_persist e1 fault1 s p1)) p2)) \<noteq> 201
      \<and> snd (post_invoices_persist e2 fault2 (snd (post_invoices_persist e1 fault1 s p1)) p2)
          = snd (post_invoices_persist e1 fault1 s p1)"
    if "invoiceNumber p1 = invoiceNumber p2" "status (fst (post_invoices_persist e1 fault1 s p1)) = 201"
  proof -
    from won [OF that(2)] have s1: "snd (post_invoices_persist e1 fault1 s p1)
        = s @ [pre_save e1 (new_Invoice e1 p1)]" by blast
    have no: "\<not> (fault2 = None \<and> validate_invoice (new_Invoice e2 p2) = []
        \<and> invoiceNumber p2 \<notin> invoiceNumber ` set (s @ [pre_save e1 (new_Invoice e1 p1)]))"
      using taken that(1) by simp
    from persist_failure_status [OF no] no show ?thesis
      unfolding s1 by (subst (2) persist_outcome) simp
  qed
  have valid_env: "validate_invoice (new_Invoice e2 p1) = validate_invoice (new_Invoice e1 p1)"
    by (simp add: validate_invoice_def new_Invoice_def invoice_payload.extend_def)
  have loser: "post_invoices_persist e2 None (snd (post_invoices_persist e1 fault1 s p1)) p1 =
      (\<lparr>status = 409, body = (json False)\<lparr>error := Some ''Invoice number already exists''\<rparr>\<rparr>,
       snd (post_invoices_persist e1 fault1 s p1))"
    if "status (fst (post_invoices_persist e1 fault1 s p1)) = 201"
  proof -
    from won [OF that] have s1: "snd (post_invoices_persist e1 fault1 s p1)
        = s @ [pre_save e1 (new_Invoice e1 p1)]"
      and v: "validate_invoice (new_Invoice e1 p1) = []" by blast+
    from taken have "find (\<lambda>x. invoiceNumber x = invoiceNumber p1)
        (s @ [pre_save e1 (new_Invoice e1 p1)]) \<noteq> None"
      by (simp only: find_number_None) simp
    then show ?thesis
      unfolding s1
      by (simp add: post_invoices_persist_def save_def valid_env v new_Invoice_number
          post_invoices_catch_def duplicate_key_error_def)
  qed
  have reads: "snd (step (Get_served e fault n) st) = st"
    "snd (step (List_served e fault fault' q) st) = st"
    by simp_all
  have removes: "set (documents (snd (step (Delete_served e fault n) st))) \<subseteq> set (documents st)"
    "length (documents (snd (step (Delete_served e fault n) st))) \<le> length (documents st)"
    using set_remove_first [of "\<lambda>d. invoiceNumber d = Some n" "documents st"]
      length_remove_first [of "\<lambda>d. invoiceNumber d = Some n" "documents st"]
    by (cases fault; auto simp add: delete_invoice_def findOneAndDelete_def split: option.splits)+
  from reachable_unique [of evs] step_unique [of st ev] race loser reads removes
  show ?thesis by blast
qed

theorem invoice_numbers_unique_witness:
  "unique_numbers (documents (run racing_creates initial))
   \<and> run racing_creates initial = \<lparr>documents = [sample_doc ''INV-1'' 1000 11], awaiting_save = []\<rparr>
   \<and> unique_numbers (documents \<lparr>documents = [sample_doc ''INV-1'' 1000 11],
         awaiting_save = [(production 2000 12, sample_payload ''INV-1'')]\<rparr>)
   \<and> unique_numbers (documents (snd (step (Post_resumes 0 None)
         \<lparr>documents = [sample_doc ''INV-1'' 1000 11],
          awaiting_save = [(production 2000 12, sample_payload ''INV-1'')]\<rparr>)))
   \<and> status (fst (post_invoices_persist (production 1000 11) None [] (sample_payload ''INV-1''))) = 201
   \<and> snd (post_invoices_persist (production 1000 11) None [] (sample_payload ''INV-1''))
        = [sample_doc ''INV-1'' 1000 11]
   \<and> post_invoices_persist (production 2000 12) None [sample_doc ''INV-1'' 1000 11]
        (sample_payload ''INV-1'') =
       (\<lparr>status = 409, body = (json False)\<lparr>error := Some ''Invoice number already exists''\<rparr>\<rparr>,
        [sample_doc ''INV-1'' 1000 11])
   \<and> status (fst (post_invoices_persist (production 2000 12) None [sample_doc ''INV-1'' 1000 11]
        ((sample_payload ''INV-1'')\<lparr>total := Some 7\<rparr>))) \<noteq> 201"
proof -
  let ?e1 = "production 1000 11" and ?e2 = "production 2000 12"
  let ?p = "sample_payload ''INV-1''" and ?p2 = "(sample_payload ''INV-1'')\<lparr>total := Some 7\<rparr>"
  let ?st = "\<lparr>documents = [sample_doc ''INV-1'' 1000 11],
              awaiting_save = [(production 2000 12, sample_payload ''INV-1'')]\<rparr>"
  have first: "post_invoices_persist ?e1 None [] ?p =
      (\<lparr>status = 201, body = (json True)\<lparr>message := Some ''Invoice saved successfully'',
          invoiceId := Some 11, body_invoiceNumber := Some ''INV-1'',
          body_createdAt := Some 1000\<rparr>\<rparr>, [sample_doc ''INV-1'' 1000 11])"
    by (simp add: sample_defs create_defs validate_defs show_nat.simps)
  then have won: "status (fst (post_invoices_persist ?e1 None [] ?p)) = 201"
    and s1: "snd (post_invoices_persist ?e1 None [] ?p) = [sample_doc ''INV-1'' 1000 11]"
    by simp_all
  have same: "invoiceNumber ?p = invoiceNumber ?p2" by (simp add: sample_defs)
  have u: "unique_numbers (documents ?st)" by (simp add: unique_numbers_def)
  have final: "run racing_creates initial =
      \<lparr>documents = [sample_doc ''INV-1'' 1000 11], awaiting_save = []\<rparr>"
    by (simp add: racing_creates_def initial_def remove_nth_def sample_defs create_defs
        validate_defs show_nat.simps)
  note inst = invoice_numbers_unique [of racing_creates ?st "Post_resumes 0 None" ?p ?p2
      ?e1 None "[]" ?e2 None ?e2 None "''INV-1''" None no_query, unfolded s1]
  from inst have a: "unique_numbers (documents (run racing_creates initial))" by blast
  from inst u have b: "unique_numbers (documents (snd (step (Post_resumes 0 None) ?st)))" by blast
  from inst won have c: "post_invoices_persist ?e2 None [sample_doc ''INV-1'' 1000 11] ?p =
       (\<lparr>status = 409, body = (json False)\<lparr>error := Some ''Invoice number already exists''\<rparr>\<rparr>,
        [sample_doc ''INV-1'' 1000 11])"
    by blast
  from inst won same have d: "status (fst (post_invoices_persist ?e2 None
      [sample_doc ''INV-1'' 1000 11] ?p2)) \<noteq> 201"
    by blast
  from a final u b won s1 c d show ?thesis by blast
qed

subsection \<open>C8: failure responses\<close>

text \<open>
  C8 as stated fails for the create handler's answer to a schema validation error:
  its \<open>details\<close> is the exception's message in production too, so two requests that
  fail validation on different paths get different bodies.
\<close>

theorem validation_details_in_production:
  "NODE_ENV (production 1000 7) \<noteq> Some ''development''
   \<and> fst (post_invoices (production 1000 7) None None []
        ((sample_payload ''INV-1'')\<lparr>subtotal := None\<rparr>)) =
       \<lparr>status = 400, body = (json False)\<lparr>error := Some ''Validation error'',
          details := Some ''Invoice validation failed: subtotal''\<rparr>\<rparr>
   \<and> fst (post_invoices (production 1000 7) None None []
        ((sample_payload ''INV-1'')\<lparr>total := None\<rparr>)) =
       \<lparr>status = 400, body = (json False)\<lparr>error := Some ''Validation error'',
          details := Some ''Invoice validation failed: total''\<rparr>\<rparr>"
  by (simp add: sample_defs create_defs validate_defs show_nat.simps)

lemma post_invoices_response:
  "fst (post_invoices e fault1 fault2 s p) \<in>
     {\<lparr>status = 400, body = (json False)\<lparr>error :=
         Some ''Missing required fields: invoiceNumber and customerInfo.name''\<rparr>\<rparr>,
      \<lparr>status = 400, body = (json False)\<lparr>error := Some ''At least one item is required''\<rparr>\<rparr>,
      \<lparr>status = 409, body = (json False)\<lparr>error := Some ''Invoice number already exists''\<rparr>\<rparr>,
      \<lparr>status = 201, body = (json True)\<lparr>message := Some ''Invoice saved successfully'',
         invoiceId := Some (new_id e), body_invoiceNumber := invoiceNumber p,
         body_createdAt := or_default (now e) (createdAt p)\<rparr>\<rparr>}
   \<or> (\<exists>err. fst (post_invoices e fault1 fault2 s p) = post_invoices_catch e err)"
proof (cases "post_invoices_lookup e fault1 s p")
  case (Some r)
  then have "r = \<lparr>status = 400, body = (json False)\<lparr>error :=
         Some ''Missing required fields: invoiceNumber and customerInfo.name''\<rparr>\<rparr>
      \<or> r = \<lparr>status = 400, body = (json False)\<lparr>error := Some ''At least one item is required''\<rparr>\<rparr>
      \<or> r = \<lparr>status = 409, body = (json False)\<lparr>error := Some ''Invoice number already exists''\<rparr>\<rparr>
      \<or> (\<exists>err. r = post_invoices_catch e err)"
    by (auto simp add: post_invoices_lookup_def split: if_splits sum.splits option.splits)
  moreover from Some have "fst (post_invoices e fault1 fault2 s p) = r"
    by (simp add: post_invoices_def)
  ultimately show ?thesis by auto
next
  case None
  then have "fst (post_invoices e fault1 fault2 s p) = fst (post_invoices_persist e fault2 s p)"
    by (simp add: post_invoices_def)
  moreover have "fst (post_invoices_persist e fault2 s p) =
      \<lparr>status = 201, body = (json True)\<lparr>message := Some ''Invoice saved successfully'',
         invoiceId := Some (new_id e), body_invoiceNumber := invoiceNumber p,
         body_createdAt := or_default (now e) (createdAt p)\<rparr>\<rparr>
    \<or> (\<exists>err. fst (post_invoices_persist e fault2 s p) = post_invoices_catch e err)"
  proof (cases "save e fault2 s (new_Invoice e p)")
    case (Inl err)
    then have "fst (post_invoices_persist e fault2 s p) = post_invoices_catch e err"
      by (simp add: post_invoices_persist_def)
    then show ?thesis by blast
  next
    case (Inr saved)
    then have "saved = (pre_save e (new_Invoice e p), s @ [pre_save e (new_Invoice e p)])"
      by (auto simp add: save_def split: option.splits if_splits)
    with Inr have "fst (post_invoices_persist e fault2 s p) =
        \<lparr>status = 201, body = (json True)\<lparr>message := Some ''Invoice saved successfully'',
           invoiceId := Some (new_id e), body_invoiceNumber := invoiceNumber p,
           body_createdAt := or_default (now e) (createdAt p)\<rparr>\<rparr>"
      by (simp add: post_invoices_persist_def pre_save_def new_Invoice_def
          invoice_payload.extend_def invoice.fields_def)
    then show ?thesis by blast
  qed
  ultimately show ?thesis by auto
qed

lemma post_invoices_catch_cases:
  "post_invoices_catch e err =
     (if err_code err = Some 11000 then
        \<lparr>status = 409, body = (json False)\<lparr>error := Some ''Invoice number already exists''\<rparr>\<rparr>
      else if err_name err = ''ValidationError'' then
        \<lparr>status = 400, body = (json False)\<lparr>error := Some ''Validation error'',
                                           details := Some (err_message err)\<rparr>\<rparr>
      else if NODE_ENV e = Some ''development'' then
        \<lparr>status = 500, body = (json False)\<lparr>error := Some ''Failed to save invoice'',
           details := Some (err_message err)\<rparr>\<rparr>
      else
        \<lparr>status = 500, body = (json False)\<lparr>error := Some ''Failed to save invoice'',
           details := Some ''Internal server error''\<rparr>\<rparr>)"
  by (simp add: post_invoices_catch_def)

lemma post_invoices_failure:
  assumes "400 \<le> status (fst (post_invoices e fault1 fault2 s p))"
  shows "success (body (fst (post_invoices e fault1 fault2 s p))) = False
       \<and> error (body (fst (post_invoices e fault1 fault2 s p))) \<noteq> None
       \<and> (NODE_ENV e \<noteq> Some ''development''
            \<and> status (fst (post_invoices e fault1 fault2 s p)) = 500 \<longrightarrow>
          body (fst (post_invoices e fault1 fault2 s p)) =
            (json False)\<lparr>error := Some ''Failed to save invoice'',
                          details := Some ''Internal server error''\<rparr>)"
  using assms post_invoices_response [of e fault1 fault2 s p]
  by (auto simp add: post_invoices_catch_cases json_def split: if_splits)

lemma get_invoice_failure:
  assumes "400 \<le> status (get_invoice e fault s n)"
  shows "success (body (get_invoice e fault s n)) = False
       \<and> error (body (get_invoice e fault s n)) \<noteq> None
       \<and> (NODE_ENV e \<noteq> Some ''development'' \<and> status (get_invoice e fault s n) = 500 \<longrightarrow>
          body (get_invoice e fault s n) =
            (json False)\<lparr>error := Some ''Failed to fetch invoice'',
                          details := Some ''Internal server error''\<rparr>)"
  using assms
  by (auto simp add: get_invoice_def findOne_def json_def split: option.splits)

lemma get_invoices_failure:
  assumes "400 \<le> status (get_invoices e fault1 fault2 s q)"
  shows "success (body (get_invoices e fault1 fault2 s q)) = False
       \<and> error (body (get_invoices e fault1 fault2 s q)) \<noteq> None
       \<and> (NODE_ENV e \<noteq> Some ''development'' \<and> status (get_invoices e fault1 fault2 s q) = 500 \<longrightarrow>
          body (get_invoices e fault1 fault2 s q) =
            (json False)\<lparr>error := Some ''Failed to fetch invoices'',
                          details := Some ''Internal server error''\<rparr>)"
  using assms
  by (auto simp add: get_invoices_def get_invoices_catch_def json_def Let_def
      split: option.splits sum.splits)

lemma delete_invoice_failure:
  assumes "400 \<le> status (fst (delete_invoice e fault s n))"
  shows "success (body (fst (delete_invoice e fault s n))) = False
       \<and> error (body (fst (delete_invoice e fault s n))) \<noteq> None
       \<and> (NODE_ENV e \<noteq> Some ''development'' \<and> status (fst (delete_invoice e fault s n)) = 500 \<longrightarrow>
          body (fst (delete_invoice e fault s n)) =
            (json False)\<lparr>error := Some ''Failed to delete invoice'',
                          details := Some ''Internal server error''\<rparr>)"
  using assms
  by (auto simp add: delete_invoice_def findOneAndDelete_def json_def split: option.splits)

text \<open>
  C8, amended. Every failure response (status 400 or above) of the four invoice
  handlers, of the catch-all route and of the global error handler is a JSON object
  with \<open>success: false\<close> and an \<open>error\<close> string. When \<open>NODE_ENV\<close> is not \<open>development\<close>, every
  500 response has one fixed body per handler, with a fixed \<open>details\<close> text, so two runs
  that fail with different internal error messages get the same body; in
  \<open>development\<close> the \<open>details\<close> of a 500 is the exception's message. The 400 answer of the
  create handler to a schema validation error carries the exception's message in
  \<open>details\<close> in every mode.
\<close>

theorem failure_responses:
  "(400 \<le> status (fst (post_invoices e fault1 fault2 s p)) \<longrightarrow>
      success (body (fst (post_invoices e fault1 fault2 s p))) = False
      \<and> error (body (fst (post_invoices e fault1 fault2 s p))) \<noteq> None)
   \<and> (400 \<le> status (get_invoice e fault s n) \<longrightarrow>
      success (body (get_invoice e fault s n)) = False
      \<and> error (body (get_invoice e fault s n)) \<noteq> None)
   \<and> (400 \<le> status (get_invoices e fault1 fault2 s q) \<longrightarrow>
      success (body (get_invoices e fault1 fault2 s q)) = False
      \<and> error (body (get_invoices e fault1 fault2 s q)) \<noteq> None)
   \<and> (400 \<le> status (fst (delete_invoice e fault s n)) \<longrightarrow>
      success (body (fst (delete_invoice e fault s n))) = False
      \<and> error (body (fst (delete_invoice e fault s n))) \<noteq> None)
   \<and> success (body (not_found_handler method url)) = False
   \<and> error (body (not_found_handler method url)) \<noteq> None
   \<and> success (body (global_error_handler e err)) = False
   \<and> error (body (global_error_handler e err)) \<noteq> None
   \<and> (NODE_ENV e \<noteq> Some ''development'' \<longrightarrow>
        (status (fst (post_invoices e fault1 fault2 s p)) = 500 \<longrightarrow>
           body (fst (post_invoices e fault1 fault2 s p)) =
             (json False)\<lparr>error := Some ''Failed to save invoice'',
                           details := Some ''Internal server error''\<rparr>)
        \<and> (status (get_invoice e fault s n) = 500 \<longrightarrow>
           body (get_invoice e fault s n) =
             (json False)\<lparr>error := Some ''Failed to fetch invoice'',
                           details := Some ''Internal server error''\<rparr>)
        \<and> (status (get_invoices e fault1 fault2 s q) = 500 \<longrightarrow>
           body (get_invoices e fault1 fault2 s q) =
             (json False)\<lparr>error := Some ''Failed to fetch invoices'',
                           details := Some ''Internal server error''\<rparr>)
        \<and> (status (fst (delete_invoice e fault s n)) = 500 \<longrightarrow>
           body (fst (delete_invoice e fault s n)) =
             (json False)\<lparr>error := Some ''Failed to delete invoice'',
                           details := Some ''Internal server error''\<rparr>)
        \<and> global_error_handler e err =
             \<lparr>status = 500, body = (json False)\<lparr>error := Some ''Internal server error'',
                                                details := Some ''Something went wrong''\<rparr>\<rparr>)
   \<and> (NODE_ENV e = Some ''development'' \<and> err_code err \<noteq> Some 11000
        \<and> err_name err \<noteq> ''ValidationError'' \<longrightarrow>
        details (body (post_invoices_catch e err)) = Some (err_message err)
        \<and> details (body (get_invoice e (Some err) s n)) = Some (err_message err)
        \<and> details (body (get_invoices e (Some err) fault2 s q)) = Some (err_message err)
        \<and> details (body (fst (delete_invoice e (Some err) s n))) = Some (err_message err)
        \<and> details (body (global_error_handler e err)) = Some (err_message err))
   \<and> (err_code err \<noteq> Some 11000 \<and> err_name err = ''ValidationError'' \<longrightarrow>
        post_invoices_catch e err =
          \<lparr>status = 400, body = (json False)\<lparr>error := Some ''Validation error'',
                                             details := Some (err_message err)\<rparr>\<rparr>)"
proof -
  have fallback: "success (body (not_found_handler method url)) = False"
    "error (body (not_found_handler method url)) \<noteq> None"
    "success (body (global_error_handler e err)) = False"
    "error (body (global_error_handler e err)) \<noteq> None"
    by (simp_all add: not_found_handler_def global_error_handler_def json_def)
  have global: "NODE_ENV e \<noteq> Some ''development'' \<Longrightarrow> global_error_handler e err =
      \<lparr>status = 500, body = (json False)\<lparr>error := Some ''Internal server error'',
                                         details := Some ''Something went wrong''\<rparr>\<rparr>"
    by (simp add: global_error_handler_def)
  have dev: "details (body (post_invoices_catch e err)) = Some (err_message err)
      \<and> details (body (get_invoice e (Some err) s n)) = Some (err_message err)
      \<and> details (body (get_invoices e (Some err) fault2 s q)) = Some (err_message err)
      \<and> details (body (fst (delete_invoice e (Some err) s n))) = Some (err_message err)
      \<and> details (body (global_error_handler e err)) = Some (err_message err)"
    if "NODE_ENV e = Some ''development''" "err_code err \<noteq> Some 11000"
      "err_name err \<noteq> ''ValidationError''"
    using that
    by (simp add: post_invoices_catch_def get_invoice_def findOne_def get_invoices_def
        find_page_def get_invoices_catch_def delete_invoice_def findOneAndDelete_def
        global_error_handler_def json_def)
  have validation: "err_code err \<noteq> Some 11000 \<and> err_name err = ''ValidationError'' \<longrightarrow>
      post_invoices_catch e err =
        \<lparr>status = 400, body = (json False)\<lparr>error := Some ''Validation error'',
                                           details := Some (err_message err)\<rparr>\<rparr>"
    by (simp add: post_invoices_catch_def)
  have five: "status r = 500 \<Longrightarrow> 400 \<le> status r" for r :: response
    by simp
  from post_invoices_failure [of e fault1 fault2 s p] get_invoice_failure [of e fault s n]
    get_invoices_failure [of e fault1 fault2 s q] delete_invoice_failure [of e fault s n]
    fallback global dev validation five
  show ?thesis by blast
qed

theorem failure_responses_witness:
  "NODE_ENV (production 1000 7) \<noteq> Some ''development''
   \<and> fst (post_invoices (production 1000 7) (Some (network_error ''socket closed'')) None []
        (sample_payload ''INV-1'')) =
       \<lparr>status = 500, body = (json False)\<lparr>error := Some ''Failed to save invoice'',
          details := Some ''Internal server error''\<rparr>\<rparr>
   \<and> fst (post_invoices (production 1000 7) (Some (network_error ''timed out'')) None []
        (sample_payload ''INV-1'')) =
       \<lparr>status = 500, body = (json False)\<lparr>error := Some ''Failed to save invoice'',
          details := Some ''Internal server error''\<rparr>\<rparr>
   \<and> get_invoice (production 1000 7) (Some (network_error ''socket closed'')) [] ''INV-1'' =
       \<lparr>status = 500, body = (json False)\<lparr>error := Some ''Failed to fetch invoice'',
          details := Some ''Internal server error''\<rparr>\<rparr>
   \<and> get_invoices (production 1000 7) (Some (network_error ''socket closed'')) None [] no_query =
       \<lparr>status = 500, body = (json False)\<lparr>error := Some ''Failed to fetch invoices'',
          details := Some ''Internal server error''\<rparr>\<rparr>
   \<and> fst (delete_invoice (production 1000 7) (Some (network_error ''socket closed'')) [] ''INV-1'') =
       \<lparr>status = 500, body = (json False)\<lparr>error := Some ''Failed to delete invoice'',
          details := Some ''Internal server error''\<rparr>\<rparr>
   \<and> NODE_ENV (development 1000 7) = Some ''development''
   \<and> details (body (get_invoice (development 1000 7) (Some (network_error ''socket closed'')) []
        ''INV-1'')) = Some ''socket closed''
   \<and> post_invoices_catch (production 1000 7) (ValidationError [''subtotal'']) =
       \<lparr>status = 400, body = (json False)\<lparr>error := Some ''Validation error'',
          details := Some ''Invoice validation failed: subtotal''\<rparr>\<rparr>"
proof -
  let ?prod = "production 1000 7" and ?dev = "development 1000 7"
  let ?e1 = "network_error ''socket closed''" and ?e2 = "network_error ''timed out''"
  let ?p = "sample_payload ''INV-1''"
  have mode: "NODE_ENV ?prod \<noteq> Some ''development''" "NODE_ENV ?dev = Some ''development''"
    by (simp_all add: production_def development_def)
  have st: "status (fst (post_invoices ?prod (Some ?e1) None [] ?p)) = 500"
    "status (fst (post_invoices ?prod (Some ?e2) None [] ?p)) = 500"
    "status (get_invoice ?prod (Some ?e1) [] ''INV-1'') = 500"
    "status (get_invoices ?prod (Some ?e1) None [] no_query) = 500"
    "status (fst (delete_invoice ?prod (Some ?e1) [] ''INV-1'')) = 500"
    by (simp_all add: sample_defs create_defs network_error_def get_invoice_def
        get_invoices_def find_page_def get_invoices_catch_def delete_invoice_def
        findOneAndDelete_def)
  have other: "err_code ?e1 \<noteq> Some 11000" "err_name ?e1 \<noteq> ''ValidationError''"
    "err_code (ValidationError [''subtotal'']) \<noteq> Some 11000"
    "err_name (ValidationError [''subtotal'']) = ''ValidationError''"
    "err_message (ValidationError [''subtotal'']) = ''Invoice validation failed: subtotal''"
    "err_message ?e1 = ''socket closed''"
    by (simp_all add: network_error_def ValidationError_def)
  note one = failure_responses [of ?prod "Some ?e1" None "[]" ?p "Some ?e1" "''INV-1''" no_query
      "''GET''" "''/''" ?e1]
  note two = failure_responses [of ?prod "Some ?e2" None "[]" ?p "Some ?e2" "''INV-1''" no_query
      "''GET''" "''/''" ?e2]
  note three = failure_responses [of ?dev "Some ?e1" None "[]" ?p "Some ?e1" "''INV-1''" no_query
      "''GET''" "''/''" ?e1]
  note four = failure_responses [of ?prod None None "[]" ?p None "''INV-1''" no_query
      "''GET''" "''/''" "ValidationError [''subtotal'']"]
  from one mode(1) st have b1: "body (fst (post_invoices ?prod (Some ?e1) None [] ?p)) =
        (json False)\<lparr>error := Some ''Failed to save invoice'', details := Some ''Internal server error''\<rparr>"
    and b3: "body (get_invoice ?prod (Some ?e1) [] ''INV-1'') =
        (json False)\<lparr>error := Some ''Failed to fetch invoice'', details := Some ''Internal server error''\<rparr>"
    and b4: "body (get_invoices ?prod (Some ?e1) None [] no_query) =
        (json False)\<lparr>error := Some ''Failed to fetch invoices'', details := Some ''Internal server error''\<rparr>"
    and b5: "body (fst (delete_invoice ?prod (Some ?e1) [] ''INV-1'')) =
        (json False)\<lparr>error := Some ''Failed to delete invoice'', details := Some ''Internal server error''\<rparr>"
    by blast+
  from two mode(1) st have b2: "body (fst (post_invoices ?prod (Some ?e2) None [] ?p)) =
        (json False)\<lparr>error := Some ''Failed to save invoice'', details := Some ''Internal server error''\<rparr>"
    by blast
  from three mode(2) other have b6: "details (body (get_invoice ?dev (Some ?e1) [] ''INV-1''))
      = Some (err_message ?e1)"
    by blast
  from four other have b7: "post_invoices_catch ?prod (ValidationError [''subtotal'']) =
       \<lparr>status = 400, body = (json False)\<lparr>error := Some ''Validation error'',
          details := Some (err_message (ValidationError [''subtotal'']))\<rparr>\<rparr>"
    by blast
  have eq: "r = \<lparr>status = status r, body = body r\<rparr>" for r :: response
    by simp
  from mode st b1 b2 b3 b4 b5 b6 b7 other(5,6)
    eq [of "fst (post_invoices ?prod (Some ?e1) None [] ?p)"]
    eq [of "fst (post_invoices ?prod (Some ?e2) None [] ?p)"]
    eq [of "get_invoice ?prod (Some ?e1) [] ''INV-1''"]
    eq [of "get_invoices ?prod (Some ?e1) None [] no_query"]
    eq [of "fst (delete_invoice ?prod (Some ?e1) [] ''INV-1'')"]
  show ?thesis by simp
qed

end
